theory Spec2Isabelle
  imports Main
begin

section \<open>JavaScript values used by the watcher and the indexer\<close>

text \<open>
  Strings are lists of code units below 256. A rejected promise or a thrown exception is
  a value \<open>Inl (JsError msg)\<close> of a sum type; a fulfilled one is \<open>Inr v\<close>.
\<close>

datatype js_error = JsError string

text \<open>JavaScript truthiness of a \<open>string | null | undefined\<close>: null, undefined and the
  empty string are falsy.\<close>

fun truthy :: "string option \<Rightarrow> bool" where
  "truthy None = False"
| "truthy (Some s) = (s \<noteq> [])"

text \<open>The white space of \<open>String.prototype.trim\<close> and of the regular expression class
  \<open>\s\<close>, restricted to code units below 256: tab, line feed, vertical tab, form feed,
  carriage return, space and no-break space.\<close>

definition is_space :: "char \<Rightarrow> bool" where
  "is_space c \<longleftrightarrow>
     c = CHR 0x09 \<or> c = CHR 0x0A \<or> c = CHR 0x0B \<or> c = CHR 0x0C \<or> c = CHR 0x0D
     \<or> c = CHR 0x20 \<or> c = CHR 0xA0"

definition trim :: "string \<Rightarrow> string" where
  "trim s = dropWhile is_space (rev (dropWhile is_space (rev s)))"

text \<open>\<open>s.split(/\s+/)\<close>: the pieces between maximal runs of white space. A string that
  starts (ends) with white space yields an empty first (last) piece, and the empty string
  yields one empty piece.\<close>

function split_ws :: "string \<Rightarrow> string list" where
  "split_ws [] = [[]]"
| "split_ws (c # cs) =
     (if is_space c then [] # split_ws (dropWhile is_space cs)
      else (case split_ws cs of
              [] \<Rightarrow> [[c]]
            | w # ws \<Rightarrow> (c # w) # ws))"
  by pat_completeness auto

termination
  by (relation "measure length") (auto simp: length_dropWhile_le less_Suc_eq_le)

text \<open>\<open>parts.join(sep)\<close>.\<close>

fun join :: "string \<Rightarrow> string list \<Rightarrow> string" where
  "join sep [] = []"
| "join sep [x] = x"
| "join sep (x # y # ys) = x @ sep @ join sep (y # ys)"

text \<open>\<open>String.prototype.toLowerCase\<close> on code units below 256: the ASCII capitals and
  the Latin-1 capitals (all of 0xC0..0xDE but the multiplication sign 0xD7) move up by
  32.\<close>

definition lower_char :: "char \<Rightarrow> char" where
  "lower_char c =
     (let n = (of_char c :: nat)
      in if (65 \<le> n \<and> n \<le> 90) \<or> (192 \<le> n \<and> n \<le> 222 \<and> n \<noteq> 215)
         then char_of (n + 32) else c)"

definition toLowerCase :: "string \<Rightarrow> string" where
  "toLowerCase s = map lower_char s"

section \<open>GitWatcher\<close>

subsection \<open>Data\<close>

record GitWatcherConfig =
  cwd :: string
  defaultBranchOverride :: "string option"

record GitStateSnapshot =
  branch :: string
  commit :: string
  isDetached :: bool

text \<open>The tagged union \<open>GitWatcherEvent\<close>. Every variant ends with the three fields of
  \<open>GitWatcherBaseEvent\<close>: the branch, isBaseBranch, and the emitting watcher, which is
  an object reference in the source and the watcher's identity here.\<close>

datatype GitWatcherEvent =
    ScanStart string bool nat
  | ScanEnd string bool nat
  | FileChanged (ev_filePath: string) (ev_fileHash: string) string bool nat
  | FileDeleted string string bool nat
  | BranchChanged (ev_previousBranch: string) (ev_newBranch: string) string bool nat

fun ev_branch :: "GitWatcherEvent \<Rightarrow> string" where
  "ev_branch (ScanStart b _ _) = b"
| "ev_branch (ScanEnd b _ _) = b"
| "ev_branch (FileChanged _ _ b _ _) = b"
| "ev_branch (FileDeleted _ b _ _) = b"
| "ev_branch (BranchChanged _ _ b _ _) = b"

fun ev_isBaseBranch :: "GitWatcherEvent \<Rightarrow> bool" where
  "ev_isBaseBranch (ScanStart _ i _) = i"
| "ev_isBaseBranch (ScanEnd _ i _) = i"
| "ev_isBaseBranch (FileChanged _ _ _ i _) = i"
| "ev_isBaseBranch (FileDeleted _ _ i _) = i"
| "ev_isBaseBranch (BranchChanged _ _ _ i _) = i"

fun ev_watcher :: "GitWatcherEvent \<Rightarrow> nat" where
  "ev_watcher (ScanStart _ _ w) = w"
| "ev_watcher (ScanEnd _ _ w) = w"
| "ev_watcher (FileChanged _ _ _ _ w) = w"
| "ev_watcher (FileDeleted _ _ _ w) = w"
| "ev_watcher (BranchChanged _ _ _ _ w) = w"

fun is_BranchChanged :: "GitWatcherEvent \<Rightarrow> bool" where
  "is_BranchChanged (BranchChanged _ _ _ _ _) = True"
| "is_BranchChanged _ = False"

record GitWatcher =
  ident :: nat
  config :: GitWatcherConfig
  currentState :: "GitStateSnapshot option"
  isProcessing :: bool
  defaultBranch :: "string option"

text \<open>\<open>new GitWatcher(config)\<close>; the identity stands for the object reference.\<close>

definition new_GitWatcher :: "nat \<Rightarrow> GitWatcherConfig \<Rightarrow> GitWatcher" where
  "new_GitWatcher i c =
     \<lparr>ident = i, config = c, currentState = None, isProcessing = False,
      defaultBranch = None\<rparr>"

record GitDiff =
  added :: "string list"
  modified :: "string list"
  deleted :: "string list"

text \<open>
  What the git helpers answer for the watcher's working copy during one call of \<open>scan\<close>
  or one change-handling cycle. Every helper is awaited in the source and may reject.
  \<open>execGetLines\<close> is an async generator: it yields lines and then either ends or
  throws.
\<close>

record git_env =
  isDetachedHead :: "js_error + bool"
  getCurrentBranch :: "js_error + string"
  getCurrentCommitSha :: "js_error + string"
  getBaseBranch :: "js_error + string"
  getGitDiff :: "string \<Rightarrow> string \<Rightarrow> js_error + GitDiff"
  execGetLines :: "string \<Rightarrow> string list \<times> js_error option"

text \<open>What a run of the watcher does that others can see, in order: an event handed to
  the emitter, a git command given to \<open>execGetLines\<close>, and a call of \<open>scan\<close> from the
  change handler.\<close>

datatype effect = Emit GitWatcherEvent | Exec string | InvokeScan

fun emitted :: "effect list \<Rightarrow> GitWatcherEvent list" where
  "emitted [] = []"
| "emitted (Emit e # xs) = e # emitted xs"
| "emitted (_ # xs) = emitted xs"

fun commands :: "effect list \<Rightarrow> string list" where
  "commands [] = []"
| "commands (Exec c # xs) = c # commands xs"
| "commands (_ # xs) = commands xs"

subsection \<open>Parsing the output of \<open>git ls-files -s\<close>\<close>

text \<open>
  The body of both \<open>for await\<close> loops: trim the line, skip it when blank, split it on
  white space, skip it when it has fewer than four parts; the hash is the second part and
  the path is the parts from the fourth on, joined with single spaces. The result is the
  pair (filePath, fileHash).
\<close>

definition parse_ls_line :: "string \<Rightarrow> (string \<times> string) option" where
  "parse_ls_line line =
     (let trimmed = trim line
      in if trimmed = [] then None
         else let parts = split_ws trimmed
              in if length parts < 4 then None
                 else Some (join '' '' (drop 3 parts), parts ! 1))"

fun emit_lines :: "(string \<Rightarrow> string \<Rightarrow> GitWatcherEvent) \<Rightarrow> string list \<Rightarrow> effect list" where
  "emit_lines mk [] = []"
| "emit_lines mk (l # ls) =
     (case parse_ls_line l of
        None \<Rightarrow> emit_lines mk ls
      | Some (p, h) \<Rightarrow> Emit (mk p h) # emit_lines mk ls)"

subsection \<open>Operations\<close>

definition getDefaultBranch :: "GitWatcher \<Rightarrow> git_env \<Rightarrow> GitWatcher \<times> (js_error + string)" where
  "getDefaultBranch w env =
     (if truthy (defaultBranch w) then (w, Inr (the (defaultBranch w)))
      else if truthy (defaultBranchOverride (config w))
      then (w\<lparr>defaultBranch := defaultBranchOverride (config w)\<rparr>,
            Inr (the (defaultBranchOverride (config w))))
      else (case getBaseBranch env of
              Inl e \<Rightarrow> (w, Inl e)
            | Inr b \<Rightarrow> (w\<lparr>defaultBranch := Some b\<rparr>, Inr b)))"

definition scanAllFiles :: "GitWatcher \<Rightarrow> git_env \<Rightarrow> string \<Rightarrow> effect list \<times> (js_error + unit)" where
  "scanAllFiles w env br =
     (let (lines, failure) = execGetLines env ''git ls-files -s'';
          tr = [Emit (ScanStart br True (ident w)), Exec ''git ls-files -s'']
               @ emit_lines (\<lambda>p h. FileChanged p h br True (ident w)) lines
      in case failure of
           Some e \<Rightarrow> (tr, Inl e)
         | None \<Rightarrow> (tr @ [Emit (ScanEnd br True (ident w))], Inr ()))"

definition quote :: "string \<Rightarrow> string" where
  "quote f = [CHR 0x22] @ f @ [CHR 0x22]"

definition scanDiffFiles ::
  "GitWatcher \<Rightarrow> git_env \<Rightarrow> string \<Rightarrow> string \<Rightarrow> effect list \<times> (js_error + unit)" where
  "scanDiffFiles w env currentBranch dflt =
     (let start = [Emit (ScanStart currentBranch False (ident w))]
      in case getGitDiff env currentBranch dflt of
           Inl e \<Rightarrow> (start, Inl e)
         | Inr diff \<Rightarrow>
             (let dels = map (\<lambda>f. Emit (FileDeleted f currentBranch False (ident w))) (deleted diff);
                  filesToScan = added diff @ modified diff
              in if length filesToScan = 0
                 then (start @ dels @ [Emit (ScanEnd currentBranch False (ident w))], Inr ())
                 else
                   (let quotedFiles = join '' '' (map quote filesToScan);
                        cmd = ''git ls-files -s '' @ quotedFiles;
                        (lines, failure) = execGetLines env cmd;
                        tr = start @ dels @ [Exec cmd]
                             @ emit_lines (\<lambda>p h. FileChanged p h currentBranch False (ident w)) lines
                    in case failure of
                         Some e \<Rightarrow> (tr, Inl e)
                       | None \<Rightarrow> (tr @ [Emit (ScanEnd currentBranch False (ident w))], Inr ()))))"

definition scan :: "GitWatcher \<Rightarrow> git_env \<Rightarrow> GitWatcher \<times> effect list \<times> (js_error + unit)" where
  "scan w env =
     (case isDetachedHead env of
        Inl e \<Rightarrow> (w, [], Inl e)
      | Inr True \<Rightarrow> (w, [], Inr ())
      | Inr False \<Rightarrow>
          (case getCurrentBranch env of
             Inl e \<Rightarrow> (w, [], Inl e)
           | Inr currentBranch \<Rightarrow>
               (case getDefaultBranch w env of
                  (w1, Inl e) \<Rightarrow> (w1, [], Inl e)
                | (w1, Inr dflt) \<Rightarrow>
                    (let (tr, r) =
                           (if toLowerCase currentBranch = toLowerCase dflt
                            then scanAllFiles w1 env currentBranch
                            else scanDiffFiles w1 env currentBranch dflt)
                     in (w1, tr, r)))))"

text \<open>\<open>start\<close>: the initial snapshot, skipped when detached; any failure is logged and
  swallowed. The file watches it then installs only call \<open>handleGitChange\<close> later and
  are not part of the state.\<close>

definition start :: "GitWatcher \<Rightarrow> git_env \<Rightarrow> GitWatcher" where
  "start w env =
     (case isDetachedHead env of
        Inl e \<Rightarrow> w
      | Inr True \<Rightarrow> w
      | Inr False \<Rightarrow>
          (case (getCurrentBranch env, getCurrentCommitSha env) of
             (Inr b, Inr c) \<Rightarrow>
               w\<lparr>currentState := Some \<lparr>branch = b, commit = c, isDetached = False\<rparr>\<rparr>
           | _ \<Rightarrow> w))"

text \<open>
  \<open>handleGitChange\<close>. The result is the watcher afterwards, what it did, and the error
  that the \<open>catch\<close> block logged, if any. The early return on \<open>isProcessing\<close> is before
  the \<open>try\<close>, so the \<open>finally\<close> does not run there; everywhere else it resets the flag.
\<close>

definition handleGitChange ::
  "GitWatcher \<Rightarrow> git_env \<Rightarrow> GitWatcher \<times> effect list \<times> js_error option" where
  "handleGitChange w env =
     (if isProcessing w then (w, [], None)
      else
        (case isDetachedHead env of
           Inl e \<Rightarrow> (w\<lparr>isProcessing := False\<rparr>, [], Some e)
         | Inr True \<Rightarrow> (w\<lparr>currentState := None, isProcessing := False\<rparr>, [], None)
         | Inr False \<Rightarrow>
             (case (getCurrentBranch env, getCurrentCommitSha env) of
                (Inl e, _) \<Rightarrow> (w\<lparr>isProcessing := False\<rparr>, [], Some e)
              | (Inr b, Inl e) \<Rightarrow> (w\<lparr>isProcessing := False\<rparr>, [], Some e)
              | (Inr b, Inr c) \<Rightarrow>
                  (let newState = \<lparr>branch = b, commit = c, isDetached = False\<rparr>
                   in case currentState w of
                        None \<Rightarrow> (w\<lparr>currentState := Some newState, isProcessing := False\<rparr>, [], None)
                      | Some cur \<Rightarrow>
                          (let branchChanged = (branch cur \<noteq> branch newState);
                               commitChanged = (commit cur \<noteq> commit newState)
                           in if \<not> branchChanged \<and> \<not> commitChanged
                              then (w\<lparr>isProcessing := False\<rparr>, [], None)
                              else
                                (case (if branchChanged
                                       then (case getDefaultBranch w env of
                                               (w1, Inl e) \<Rightarrow> (w1, [], Some e)
                                             | (w1, Inr dflt) \<Rightarrow>
                                                 (w1,
                                                  [Emit (BranchChanged (branch cur) (branch newState)
                                                     (branch newState)
                                                     (toLowerCase (branch newState) = toLowerCase dflt)
                                                     (ident w))],
                                                  None))
                                       else (w, [], None)) of
                                   (w1, tr1, Some e) \<Rightarrow> (w1\<lparr>isProcessing := False\<rparr>, tr1, Some e)
                                 | (w1, tr1, None) \<Rightarrow>
                                     (case scan w1 env of
                                        (w2, tr2, Inl e) \<Rightarrow>
                                          (w2\<lparr>isProcessing := False\<rparr>, tr1 @ InvokeScan # tr2, Some e)
                                      | (w2, tr2, Inr u) \<Rightarrow>
                                          (w2\<lparr>currentState := Some newState, isProcessing := False\<rparr>,
                                           tr1 @ InvokeScan # tr2, None))))))))"

section \<open>ManagedIndexer\<close>

subsection \<open>Data\<close>

text \<open>
  \<open>ServerManifest\<close>, \<open>ManagedIndexerError\<close> (without its timestamp and stack trace),
  \<open>ManagedIndexerConfig\<close> (the token and the organization id) and
  \<open>ManagedIndexerWorkspaceFolderState\<close>. The workspace folder is its \<open>uri.fsPath\<close>,
  the watcher is the identity of the \<open>GitWatcher\<close> object, and
  \<open>manifestFetchPromise\<close> is the identity of the promise it holds.
\<close>

record ManifestFile =
  filePath :: string
  fileHash :: string

record ServerManifest =
  files :: "ManifestFile list"

datatype error_type = ErrSetup | ErrScan | ErrFileUpsert | ErrGit | ErrManifest | ErrConfig

record ManagedIndexerError =
  err_type :: error_type
  message :: string
  ctx_filePath :: "string option"
  ctx_branch :: "string option"
  ctx_operation :: "string option"

record ManagedIndexerConfig =
  kilocodeToken :: "string option"
  kilocodeOrganizationId :: "string option"

record ManagedIndexerWorkspaceFolderState =
  workspaceFolder :: string
  gitBranch :: "string option"
  projectId :: "string option"
  manifest :: "ServerManifest option"
  isIndexing :: bool
  watcher :: "nat option"
  repositoryUrl :: "string option"
  error :: "ManagedIndexerError option"
  manifestFetchPromise :: "nat option"

text \<open>
  The calls that leave the indexer, logged in order: \<open>getKilocodeConfig(cwd, repositoryUrl)\<close>,
  \<open>getServerManifest(organizationId, projectId, branch, token)\<close> and \<open>upsertFile\<close>
  with fileHash, filePath, gitBranch, isBaseBranch, organizationId, projectId and token.
\<close>

datatype api_call =
    GetKilocodeConfig string "string option"
  | GetServerManifest string string string string
  | UpsertFile string string string bool string string string

text \<open>
  The async block that \<open>getManifest\<close> starts suspends twice, at
  \<open>await getKilocodeConfig(...)\<close> and at \<open>await getServerManifest(...)\<close>. A block
  that is running is a \<open>fetch\<close>: its promise, the folder state it closes over (by
  position in \<open>workspaceFolderState\<close>), its branch argument, and where it is suspended.
\<close>

datatype fetch_stage = AwaitingConfig | AwaitingManifest

record fetch =
  fetch_promise :: nat
  fetch_state :: nat
  fetch_branch :: string
  stage :: fetch_stage

text \<open>
  A call of \<open>onEvent\<close> suspended at \<open>await this.getManifest(...)\<close>: the branch-changed
  case does nothing more, the file-changed case goes on with the manifest. A promise
  settles fulfilled with a manifest or rejected with an error; \<open>getManifest\<close> answers a
  caller at once from the cache or with a promise to wait for.
\<close>

datatype waiter = BranchChangedWaiter | FileChangedWaiter nat GitWatcherEvent

datatype settled = Fulfilled ServerManifest | Rejected js_error

datatype manifest_result = Cached ServerManifest | Pending nat

text \<open>
  The indexer: the fields the modelled methods read and write, then what is in flight:
  the running fetches, the suspended calls of \<open>onEvent\<close> with the promise each waits
  for, the tasks handed to \<open>fileUpsertLimit\<close> that have not run yet, the log of outside
  calls, and the next unused promise identity. Folder states are referred to by
  position; \<open>dispose\<close> and a restart, which rebuild the list, are not modelled.
\<close>

record ManagedIndexer =
  isActive :: bool
  indexer_config :: "ManagedIndexerConfig option"
  workspaceFolderState :: "ManagedIndexerWorkspaceFolderState list"
  fetches :: "fetch list"
  suspended :: "(nat \<times> waiter) list"
  fileUpsertLimit :: "(nat \<times> GitWatcherEvent) list"
  api_calls :: "api_call list"
  next_promise :: nat

definition error_message :: "js_error \<Rightarrow> string" where
  "error_message e = (case e of JsError m \<Rightarrow> m)"

definition update_state ::
  "ManagedIndexer \<Rightarrow> nat \<Rightarrow> (ManagedIndexerWorkspaceFolderState \<Rightarrow> ManagedIndexerWorkspaceFolderState)
   \<Rightarrow> ManagedIndexer" where
  "update_state ix i f =
     ix\<lparr>workspaceFolderState := (workspaceFolderState ix)[i := f (workspaceFolderState ix ! i)]\<rparr>"

definition config_token :: "ManagedIndexer \<Rightarrow> string option" where
  "config_token ix = (case indexer_config ix of None \<Rightarrow> None | Some c \<Rightarrow> kilocodeToken c)"

definition config_org :: "ManagedIndexer \<Rightarrow> string option" where
  "config_org ix = (case indexer_config ix of None \<Rightarrow> None | Some c \<Rightarrow> kilocodeOrganizationId c)"

subsection \<open>getManifest\<close>

text \<open>
  \<open>getManifest\<close> up to the point where it returns. Starting a fetch runs the async
  block to its first \<open>await\<close>, so \<open>getKilocodeConfig\<close> is called before
  \<open>getManifest\<close> returns; the branch is recorded and the promise is stored first.
\<close>

definition getManifest :: "ManagedIndexer \<Rightarrow> nat \<Rightarrow> string \<Rightarrow> ManagedIndexer \<times> manifest_result" where
  "getManifest ix i br =
     (let state = workspaceFolderState ix ! i
      in if manifestFetchPromise state \<noteq> None \<and> gitBranch state = Some br
         then (ix, Pending (the (manifestFetchPromise state)))
         else if manifest state \<noteq> None \<and> gitBranch state = Some br
         then (ix, Cached (the (manifest state)))
         else
           (let p = next_promise ix;
                ix1 = update_state ix i (\<lambda>s. s\<lparr>gitBranch := Some br, manifestFetchPromise := Some p\<rparr>)
            in (ix1\<lparr>fetches := fetches ix1
                        @ [\<lparr>fetch_promise = p, fetch_state = i, fetch_branch = br,
                            stage = AwaitingConfig\<rparr>],
                     api_calls := api_calls ix1
                        @ [GetKilocodeConfig (workspaceFolder state) (repositoryUrl state)],
                     next_promise := Suc p\<rparr>,
                Pending p)))"

text \<open>
  The file-changed case after the manifest is there: skip when the manifest has the
  exact (filePath, fileHash) pair, otherwise hand one task to \<open>fileUpsertLimit\<close>.
\<close>

definition already_indexed :: "ServerManifest \<Rightarrow> string \<Rightarrow> string \<Rightarrow> bool" where
  "already_indexed m fp fh = list_ex (\<lambda>f. filePath f = fp \<and> fileHash f = fh) (files m)"

definition reconcile :: "ManagedIndexer \<Rightarrow> nat \<Rightarrow> GitWatcherEvent \<Rightarrow> ServerManifest \<Rightarrow> ManagedIndexer" where
  "reconcile ix i event m =
     (if already_indexed m (ev_filePath event) (ev_fileHash event) then ix
      else ix\<lparr>fileUpsertLimit := fileUpsertLimit ix @ [(i, event)]\<rparr>)"

fun resume :: "settled \<Rightarrow> waiter \<Rightarrow> ManagedIndexer \<Rightarrow> ManagedIndexer" where
  "resume r BranchChangedWaiter ix = ix"
| "resume (Fulfilled m) (FileChangedWaiter i event) ix = reconcile ix i event m"
| "resume (Rejected e) (FileChangedWaiter i event) ix = ix"

text \<open>
  A fetch ends: the block is gone, and every call suspended on its promise goes on, in
  the order in which they subscribed.
\<close>

definition settle :: "ManagedIndexer \<Rightarrow> nat \<Rightarrow> settled \<Rightarrow> ManagedIndexer" where
  "settle ix p r =
     fold (resume r) (map snd (filter (\<lambda>(q, w). q = p) (suspended ix)))
       (ix\<lparr>fetches := filter (\<lambda>f. fetch_promise f \<noteq> p) (fetches ix),
           suspended := filter (\<lambda>(q, w). q \<noteq> p) (suspended ix)\<rparr>)"

text \<open>
  The \<open>catch\<close> and \<open>finally\<close> of the async block: record a manifest error, clear
  \<open>manifestFetchPromise\<close> (whatever it holds by now) and reject.
\<close>

definition fetch_failed :: "ManagedIndexer \<Rightarrow> fetch \<Rightarrow> js_error \<Rightarrow> ManagedIndexer" where
  "fetch_failed ix f e =
     settle
       (update_state ix (fetch_state f)
          (\<lambda>s. s\<lparr>error := Some \<lparr>err_type = ErrManifest,
                                 message = ''Failed to fetch manifest: '' @ error_message e,
                                 ctx_filePath = None, ctx_branch = Some (fetch_branch f),
                                 ctx_operation = Some ''fetch-manifest''\<rparr>,
                  manifestFetchPromise := None\<rparr>))
       (fetch_promise f) (Rejected e)"

text \<open>
  The configuration resolver answers the fetch with promise \<open>p\<close>: with no project id
  or no token or organization the block throws; otherwise it stores the project id and
  calls \<open>getServerManifest\<close>.
\<close>

definition config_arrives ::
  "ManagedIndexer \<Rightarrow> nat \<Rightarrow> js_error + string option \<Rightarrow> ManagedIndexer" where
  "config_arrives ix p resp =
     (case find (\<lambda>f. fetch_promise f = p \<and> stage f = AwaitingConfig) (fetches ix) of
        None \<Rightarrow> ix
      | Some f \<Rightarrow>
          (case resp of
             Inl e \<Rightarrow> fetch_failed ix f e
           | Inr pid \<Rightarrow>
               if \<not> truthy pid
               then fetch_failed ix f
                      (JsError (''No project ID found for workspace folder ''
                                @ workspaceFolder (workspaceFolderState ix ! fetch_state f)))
               else
                 (let ix1 = update_state ix (fetch_state f) (\<lambda>s. s\<lparr>projectId := pid\<rparr>)
                  in if \<not> truthy (config_token ix1) \<or> \<not> truthy (config_org ix1)
                     then fetch_failed ix1 f (JsError ''Missing required configuration for manifest fetch'')
                     else ix1\<lparr>api_calls := api_calls ix1
                                 @ [GetServerManifest (the (config_org ix1)) (the pid)
                                      (fetch_branch f) (the (config_token ix1))],
                              fetches := map (\<lambda>g. if fetch_promise g = p
                                                   then g\<lparr>stage := AwaitingManifest\<rparr> else g)
                                             (fetches ix1)\<rparr>)))"

text \<open>
  The manifest API answers the fetch with promise \<open>p\<close>: on success the manifest is
  stored, a manifest error is cleared, \<open>finally\<close> clears \<open>manifestFetchPromise\<close>, and the
  promise is fulfilled.
\<close>

definition clear_error :: "error_type \<Rightarrow> ManagedIndexerError option \<Rightarrow> ManagedIndexerError option" where
  "clear_error k e = (case e of None \<Rightarrow> None | Some x \<Rightarrow> if err_type x = k then None else Some x)"

definition manifest_arrives ::
  "ManagedIndexer \<Rightarrow> nat \<Rightarrow> js_error + ServerManifest \<Rightarrow> ManagedIndexer" where
  "manifest_arrives ix p resp =
     (case find (\<lambda>f. fetch_promise f = p \<and> stage f = AwaitingManifest) (fetches ix) of
        None \<Rightarrow> ix
      | Some f \<Rightarrow>
          (case resp of
             Inl e \<Rightarrow> fetch_failed ix f e
           | Inr m \<Rightarrow>
               settle
                 (update_state ix (fetch_state f)
                    (\<lambda>s. s\<lparr>manifest := Some m, error := clear_error ErrManifest (error s),
                            manifestFetchPromise := None\<rparr>))
                 p (Fulfilled m)))"

subsection \<open>onEvent\<close>

text \<open>
  \<open>path.extname\<close> of Node, for POSIX paths: the extension of the last path segment
  (trailing slashes aside), from its last dot; empty when the segment has no dot, when
  its only dot is its first character, and for the segment \<open>..\<close>.
\<close>

definition extname :: "string \<Rightarrow> string" where
  "extname p =
     (let b = rev (takeWhile (\<lambda>c. c \<noteq> CHR ''/'') (dropWhile (\<lambda>c. c = CHR ''/'') (rev p)));
          ext = rev (takeWhile (\<lambda>c. c \<noteq> CHR ''.'') (rev b))
      in if CHR ''.'' \<notin> set b then []
         else if length b = Suc (length ext) then []
         else if b = ''..'' then []
         else CHR ''.'' # ext)"

text \<open>
  \<open>this.workspaceFolderState.find((s) => s.watcher === event.watcher)\<close>: the position of
  the first state whose watcher is the event's.
\<close>

fun find_from :: "nat \<Rightarrow> nat \<Rightarrow> ManagedIndexerWorkspaceFolderState list \<Rightarrow> nat option" where
  "find_from w k [] = None"
| "find_from w k (s # ss) = (if watcher s = Some w then Some k else find_from w (Suc k) ss)"

definition find_state :: "ManagedIndexer \<Rightarrow> nat \<Rightarrow> nat option" where
  "find_state ix w = find_from w 0 (workspaceFolderState ix)"

text \<open>
  \<open>onEvent\<close> up to its first \<open>await\<close> or its return. \<open>scannerExtensions\<close> comes from
  a module outside the sources at hand and is a parameter.
\<close>

definition onEvent :: "string list \<Rightarrow> ManagedIndexer \<Rightarrow> GitWatcherEvent \<Rightarrow> ManagedIndexer" where
  "onEvent scannerExtensions ix event =
     (if \<not> isActive ix then ix
      else
        (case find_state ix (ev_watcher event) of
           None \<Rightarrow> ix
         | Some i \<Rightarrow>
             (let state = workspaceFolderState ix ! i
              in if \<not> truthy (projectId state) \<or> \<not> truthy (gitBranch state) then ix
                 else
                   (case event of
                      BranchChanged prev new b isb w \<Rightarrow>
                        (case getManifest ix i new of
                           (ix1, Cached m) \<Rightarrow> ix1
                         | (ix1, Pending p) \<Rightarrow>
                             ix1\<lparr>suspended := suspended ix1 @ [(p, BranchChangedWaiter)]\<rparr>)
                    | ScanStart b isb w \<Rightarrow>
                        update_state ix i (\<lambda>s. s\<lparr>isIndexing := True, error := None\<rparr>)
                    | ScanEnd b isb w \<Rightarrow> update_state ix i (\<lambda>s. s\<lparr>isIndexing := False\<rparr>)
                    | FileDeleted fp b isb w \<Rightarrow> ix
                    | FileChanged fp fh b isb w \<Rightarrow>
                        if toLowerCase (extname fp) \<notin> set scannerExtensions then ix
                        else
                          (case getManifest ix i b of
                             (ix1, Cached m) \<Rightarrow> reconcile ix1 i event m
                           | (ix1, Pending p) \<Rightarrow>
                               ix1\<lparr>suspended := suspended ix1 @ [(p, FileChangedWaiter i event)]\<rparr>)))))"

text \<open>
  The task handed to \<open>fileUpsertLimit\<close>, run in one step with the outcomes of
  \<open>fs.readFile\<close> and \<open>upsertFile\<close>. The functions of Node's \<open>path\<close> it uses are
  parameters; the watcher's \<open>cwd\<close> is the workspace folder it was created with.
\<close>

record node_path =
  isAbsolute :: "string \<Rightarrow> bool"
  path_join :: "string \<Rightarrow> string \<Rightarrow> string"
  relative :: "string \<Rightarrow> string \<Rightarrow> string"

definition upsert_failed ::
  "ManagedIndexer \<Rightarrow> nat \<Rightarrow> GitWatcherEvent \<Rightarrow> js_error \<Rightarrow> ManagedIndexer" where
  "upsert_failed ix i event e =
     update_state ix i
       (\<lambda>s. s\<lparr>error := Some \<lparr>err_type = ErrFileUpsert,
                              message = ''Failed to upsert file: '' @ error_message e,
                              ctx_filePath = Some (ev_filePath event),
                              ctx_branch = Some (ev_branch event),
                              ctx_operation = Some ''file-upsert''\<rparr>\<rparr>)"

definition run_upload ::
  "node_path \<Rightarrow> ManagedIndexer \<Rightarrow> js_error + unit \<Rightarrow> js_error + unit \<Rightarrow> ManagedIndexer" where
  "run_upload P ix readFile upsertFile =
     (case fileUpsertLimit ix of
        [] \<Rightarrow> ix
      | (i, event) # rest \<Rightarrow>
          (let ix1 = ix\<lparr>fileUpsertLimit := rest\<rparr>;
               state = workspaceFolderState ix1 ! i
           in if \<not> truthy (config_token ix1) \<or> \<not> truthy (config_org ix1)
                 \<or> \<not> truthy (projectId state)
              then ix1
              else
                (let cwd = workspaceFolder state;
                     absoluteFilePath = (if isAbsolute P (ev_filePath event) then ev_filePath event
                                         else path_join P cwd (ev_filePath event))
                 in case readFile of
                      Inl e \<Rightarrow> upsert_failed ix1 i event e
                    | Inr u \<Rightarrow>
                        (let ix2 = ix1\<lparr>api_calls := api_calls ix1
                                       @ [UpsertFile (ev_fileHash event)
                                            (relative P cwd absoluteFilePath)
                                            (ev_branch event) (ev_isBaseBranch event)
                                            (the (config_org ix1)) (the (projectId state))
                                            (the (config_token ix1))]\<rparr>
                         in case upsertFile of
                              Inl e \<Rightarrow> upsert_failed ix2 i event e
                            | Inr u \<Rightarrow>
                                update_state ix2 i
                                  (\<lambda>s. s\<lparr>error := clear_error ErrFileUpsert (error s)\<rparr>)))))"

text \<open>
  What can happen to the indexer, one thing at a time: an event is delivered, the
  configuration resolver or the manifest API answers a running fetch, an upload task
  runs.
\<close>

datatype action =
    Event GitWatcherEvent
  | ConfigArrives nat "js_error + string option"
  | ManifestArrives nat "js_error + ServerManifest"
  | RunUpload "js_error + unit" "js_error + unit"

fun step :: "string list \<Rightarrow> node_path \<Rightarrow> ManagedIndexer \<Rightarrow> action \<Rightarrow> ManagedIndexer" where
  "step exts P ix (Event e) = onEvent exts ix e"
| "step exts P ix (ConfigArrives p r) = config_arrives ix p r"
| "step exts P ix (ManifestArrives p r) = manifest_arrives ix p r"
| "step exts P ix (RunUpload r u) = run_upload P ix r u"

definition run :: "string list \<Rightarrow> node_path \<Rightarrow> ManagedIndexer \<Rightarrow> action list \<Rightarrow> ManagedIndexer" where
  "run exts P ix acts = foldl (step exts P) ix acts"

subsection \<open>start\<close>

text \<open>\<open>new ManagedIndexer(contextProxy)\<close>: the field initialisers of the class.\<close>

definition new_ManagedIndexer :: ManagedIndexer where
  "new_ManagedIndexer =
     \<lparr>isActive = False, indexer_config = None, workspaceFolderState = [], fetches = [],
      suspended = [], fileUpsertLimit = [], api_calls = [], next_promise = 0\<rparr>"

text \<open>
  What the outside answers for one workspace folder during \<open>start\<close>. The helpers that
  \<open>start\<close> awaits inside its \<open>try\<close> blocks may reject: \<open>getGitRepositoryInfo\<close> (the
  repository URL), \<open>getCurrentBranch\<close>, \<open>getKilocodeConfig\<close> (the project id) and
  \<open>getServerManifest\<close>; \<open>new GitWatcher\<close> and \<open>watcher.onEvent\<close> may throw.
  \<open>isGitRepository\<close> is not among the sources at hand; it is taken as section 6 of the
  specification gives it, \<open>isGitRepository(root) -> bool\<close>, a check that answers (step 1
  of start-up has no failure outcome, and the tests only ever resolve it). \<open>su_git\<close>
  is what the git helpers answer the folder's watcher during its first \<open>scan\<close> and its
  \<open>start\<close>. Upload tasks run whenever the file system and the API answer;
  \<open>su_uploads\<close> lists the outcomes of \<open>fs.readFile\<close> and \<open>upsertFile\<close> for the tasks
  that run to their end while the folder's first scan is awaited.
\<close>

record startup_env =
  su_isGitRepository :: bool
  su_getGitRepositoryInfo :: "js_error + string option"
  su_getCurrentBranch :: "js_error + string"
  su_getKilocodeConfig :: "js_error + string option"
  su_getServerManifest :: "string \<Rightarrow> string \<Rightarrow> string \<Rightarrow> string \<Rightarrow> js_error + ServerManifest"
  su_newGitWatcher :: "js_error option"
  su_registerHandler :: "js_error option"
  su_git :: git_env
  su_uploads :: "((js_error + unit) \<times> (js_error + unit)) list"

definition fresh_state :: "string \<Rightarrow> ManagedIndexerWorkspaceFolderState" where
  "fresh_state folder =
     \<lparr>workspaceFolder = folder, gitBranch = None, projectId = None, manifest = None,
      isIndexing = False, watcher = None, repositoryUrl = None, error = None,
      manifestFetchPromise = None\<rparr>"

definition startup_error ::
  "error_type \<Rightarrow> string \<Rightarrow> js_error \<Rightarrow> string \<Rightarrow> string option \<Rightarrow> ManagedIndexerError" where
  "startup_error k prefix e operation br =
     \<lparr>err_type = k, message = prefix @ error_message e, ctx_filePath = None, ctx_branch = br,
      ctx_operation = Some operation\<rparr>"

definition git_failed ::
  "ManagedIndexerWorkspaceFolderState \<Rightarrow> js_error \<Rightarrow> ManagedIndexerWorkspaceFolderState" where
  "git_failed state e =
     state\<lparr>error := Some (startup_error ErrGit ''Failed to get git information: '' e
                            ''get-git-info'' None)\<rparr>"

text \<open>
  The async callback that \<open>start\<close> maps over the workspace folders; \<open>null\<close> is \<open>None\<close>.
  Everything after the \<open>isGitRepository\<close> check is inside the outer \<open>try\<close>, whose
  \<open>catch\<close> records a git error; the manifest fetch and the watcher have \<open>try\<close> blocks
  of their own. The watcher made for the folder at position \<open>wid\<close> of the workspace
  folders gets that position as its identity.
\<close>

definition init_folder ::
  "string \<Rightarrow> string \<Rightarrow> startup_env \<Rightarrow> nat \<Rightarrow> string
   \<Rightarrow> ManagedIndexerWorkspaceFolderState option" where
  "init_folder org tk env wid folder =
     (let state = fresh_state folder
      in if \<not> su_isGitRepository env then None
         else
           (case (su_getGitRepositoryInfo env, su_getCurrentBranch env) of
              (Inl e, _) \<Rightarrow> Some (git_failed state e)
            | (Inr url, Inl e) \<Rightarrow> Some (git_failed state e)
            | (Inr url, Inr br) \<Rightarrow>
                (let state1 = state\<lparr>gitBranch := Some br, repositoryUrl := url\<rparr>
                 in case su_getKilocodeConfig env of
                      Inl e \<Rightarrow> Some (git_failed state1 e)
                    | Inr pid \<Rightarrow>
                        if \<not> truthy pid then None
                        else
                          (let state2 = state1\<lparr>projectId := pid\<rparr>
                           in case su_getServerManifest env org (the pid) br tk of
                                Inl e \<Rightarrow>
                                  Some (state2\<lparr>error := Some (startup_error ErrManifest
                                           ''Failed to fetch server manifest: '' e
                                           ''fetch-manifest'' (Some br))\<rparr>)
                              | Inr m \<Rightarrow>
                                  (let state3 = state2\<lparr>manifest := Some m\<rparr>
                                   in case su_newGitWatcher env of
                                        Some e \<Rightarrow>
                                          Some (state3\<lparr>error := Some (startup_error ErrScan
                                                   ''Failed to start file watcher: '' e
                                                   ''start-watcher'' (Some br))\<rparr>)
                                      | None \<Rightarrow>
                                          (let state4 = state3\<lparr>watcher := Some wid\<rparr>
                                           in case su_registerHandler env of
                                                Some e \<Rightarrow>
                                                  Some (state4\<lparr>error := Some (startup_error ErrScan
                                                           ''Failed to start file watcher: '' e
                                                           ''start-watcher'' (Some br))\<rparr>)
                                              | None \<Rightarrow> Some state4))))))"

text \<open>
  The second \<open>Promise.all\<close> of \<open>start\<close>: for every state that has a watcher,
  \<open>await state.watcher?.scan()\<close> and then \<open>await state.watcher?.start()\<close>. The
  emitter hands every event of the scan to the handler registered for the watcher, which
  is \<open>onEvent\<close> of the indexer (no handler is there when registering threw). A scan
  that throws rejects the callback, so that watcher is not started and \<open>start\<close> of the
  indexer rejects, while the callbacks of the other folders go on. The callbacks run
  concurrently in the source; here they run in the order of the state list, every event
  changing only the state of its own watcher. The result is the indexer, the watchers
  that were started, and the error of the first failed scan.
\<close>

fun first_scans ::
  "string list \<Rightarrow> node_path \<Rightarrow> (string \<Rightarrow> startup_env)
   \<Rightarrow> ManagedIndexerWorkspaceFolderState list \<Rightarrow> ManagedIndexer
   \<Rightarrow> ManagedIndexer \<times> GitWatcher list \<times> js_error option" where
  "first_scans exts P env [] ix = (ix, [], None)"
| "first_scans exts P env (s # ss) ix =
     (case watcher s of
        None \<Rightarrow> first_scans exts P env ss ix
      | Some wid \<Rightarrow>
          (let e = env (workspaceFolder s);
               (w1, tr, r) = scan (new_GitWatcher wid
                                     \<lparr>cwd = workspaceFolder s, defaultBranchOverride = None\<rparr>)
                               (su_git e);
               ix1 = run exts P ix
                       ((if su_registerHandler e = None then map Event (emitted tr) else [])
                        @ map (\<lambda>(rd, up). RunUpload rd up) (su_uploads e));
               (ix2, started, failure) = first_scans exts P env ss ix1
           in case r of
                Inl err \<Rightarrow> (ix2, started, Some err)
              | Inr u \<Rightarrow> (ix2, start w1 (su_git e) # started, failure)))"

text \<open>
  \<open>start\<close> of a newly constructed indexer (\<open>dispose\<close> and a restart are not modelled):
  \<open>fetched\<close> is what \<open>fetchConfig\<close> reads, \<open>organization_enabled\<close> the outcome of
  looking the organization up and asking whether it has code indexing (done only with a
  token and an organization id). The state list is stored before the first scans.
\<close>

definition ManagedIndexer_start ::
  "string list \<Rightarrow> node_path \<Rightarrow> ManagedIndexerConfig \<Rightarrow> js_error + bool
   \<Rightarrow> (string \<Rightarrow> startup_env) \<Rightarrow> string list
   \<Rightarrow> ManagedIndexer \<times> GitWatcher list \<times> (js_error + unit)" where
  "ManagedIndexer_start exts P fetched organization_enabled env roots =
     (if roots = [] then (new_ManagedIndexer, [], Inr ())
      else
        (let ix0 = new_ManagedIndexer\<lparr>indexer_config := Some fetched\<rparr>;
             configured = (truthy (kilocodeToken fetched) \<and> truthy (kilocodeOrganizationId fetched))
         in case (if configured then organization_enabled else Inr False) of
              Inl e \<Rightarrow> (ix0, [], Inl e)
            | Inr False \<Rightarrow> (ix0, [], Inr ())
            | Inr True \<Rightarrow>
                if \<not> configured then (ix0, [], Inr ())
                else
                  (let states = List.map_filter
                         (\<lambda>(wid, folder).
                            init_folder (the (kilocodeOrganizationId fetched))
                              (the (kilocodeToken fetched)) (env folder) wid folder)
                         (enumerate 0 roots);
                       (ix1, started, failure) =
                         first_scans exts P env states
                           (ix0\<lparr>isActive := True, workspaceFolderState := states\<rparr>)
                   in (ix1, started, case failure of None \<Rightarrow> Inr () | Some e \<Rightarrow> Inl e))))"

section \<open>Notions used in the statements\<close>

text \<open>
  A record of \<open>git ls-files -s\<close> for (mode, hash, stage, path): the first three fields
  are tokens (not empty, no white space) separated by single spaces, and one white
  space character (a tab in git's output) stands before the path. A record is well
  formed when its path has a character that is not white space; \<open>normalise_path\<close> is
  what the parser makes of a path.
\<close>

definition token :: "string \<Rightarrow> bool" where
  "token t \<longleftrightarrow> t \<noteq> [] \<and> (\<forall>c\<in>set t. \<not> is_space c)"

definition ls_record :: "char \<Rightarrow> string \<times> string \<times> string \<times> string \<Rightarrow> string" where
  "ls_record sep r = (case r of (m, h, st, p) \<Rightarrow> m @ '' '' @ h @ '' '' @ st @ [sep] @ p)"

definition wf_record :: "string \<times> string \<times> string \<times> string \<Rightarrow> bool" where
  "wf_record r = (case r of (m, h, st, p) \<Rightarrow> token m \<and> token h \<and> token st \<and> (\<exists>c\<in>set p. \<not> is_space c))"

definition normalise_path :: "string \<Rightarrow> string" where
  "normalise_path p = join '' '' (split_ws (trim p))"

text \<open>The batched command of a differential scan, and the (branch, commit) pair of the
  cached snapshot.\<close>

definition diff_cmd :: "GitDiff \<Rightarrow> string" where
  "diff_cmd d = ''git ls-files -s '' @ join '' '' (map quote (added d @ modified d))"

definition observed :: "GitWatcher \<Rightarrow> (string \<times> string) option" where
  "observed w = map_option (\<lambda>s. (branch s, commit s)) (currentState w)"


text \<open>
  The call of \<open>getManifest\<close> that an event makes when it is delivered: the folder state
  and the branch it asks for. The guards are those of \<open>onEvent\<close>: an inactive indexer,
  an unknown watcher, a folder without project id or branch, and a file with an
  unsupported extension make no call, and neither do the scan and deletion events.
\<close>

definition manifest_request ::
  "string list \<Rightarrow> ManagedIndexer \<Rightarrow> GitWatcherEvent \<Rightarrow> (nat \<times> string) option" where
  "manifest_request scannerExtensions ix event =
     (if \<not> isActive ix then None
      else
        (case find_state ix (ev_watcher event) of
           None \<Rightarrow> None
         | Some i \<Rightarrow>
             (let state = workspaceFolderState ix ! i
              in if \<not> truthy (projectId state) \<or> \<not> truthy (gitBranch state) then None
                 else
                   (case event of
                      BranchChanged prev new b isb w \<Rightarrow> Some (i, new)
                    | FileChanged fp fh b isb w \<Rightarrow>
                        if toLowerCase (extname fp) \<notin> set scannerExtensions then None
                        else Some (i, b)
                    | _ \<Rightarrow> None))))"

text \<open>
  An action joins what is pending unless it is an event that calls \<open>getManifest\<close> for a
  folder whose slot holds a fetch and whose recorded branch is another one than the branch
  asked for. A run is calm when every action joins what is pending at the moment it
  happens: no request for another branch reaches a folder while a fetch is pending on it.
\<close>

definition joins_pending :: "string list \<Rightarrow> ManagedIndexer \<Rightarrow> action \<Rightarrow> bool" where
  "joins_pending exts ix a =
     (case a of
        Event e \<Rightarrow>
          (case manifest_request exts ix e of
             Some (i, br) \<Rightarrow>
               manifestFetchPromise (workspaceFolderState ix ! i) = None
               \<or> gitBranch (workspaceFolderState ix ! i) = Some br
           | None \<Rightarrow> True)
      | _ \<Rightarrow> True)"

fun calm_run :: "string list \<Rightarrow> node_path \<Rightarrow> ManagedIndexer \<Rightarrow> action list \<Rightarrow> bool" where
  "calm_run exts P ix [] = True"
| "calm_run exts P ix (a # as) = (joins_pending exts ix a \<and> calm_run exts P (step exts P ix a) as)"



text \<open>The upload tasks a suspended call hands over when it is resumed with a manifest.\<close>

fun scheduled_by :: "ServerManifest \<Rightarrow> waiter \<Rightarrow> (nat \<times> GitWatcherEvent) list" where
  "scheduled_by m BranchChangedWaiter = []"
| "scheduled_by m (FileChangedWaiter i event) =
     (if already_indexed m (ev_filePath event) (ev_fileHash event) then [] else [(i, event)])"


definition error_kind :: "ManagedIndexerWorkspaceFolderState \<Rightarrow> error_type option" where
  "error_kind s = map_option err_type (error s)"

text \<open>
  What delivering events and running uploads leaves of a folder state: the folder, the
  project id, the manifest and the watcher stay, a branch stays recorded, a state without
  a watcher stays as it is, and the only error that can appear is one of a file upsert.
  Every queued upload task belongs to a state that has a watcher.
\<close>

definition state_kept ::
  "ManagedIndexerWorkspaceFolderState \<Rightarrow> ManagedIndexerWorkspaceFolderState \<Rightarrow> bool" where
  "state_kept s s' \<longleftrightarrow>
     workspaceFolder s' = workspaceFolder s \<and> projectId s' = projectId s
     \<and> manifest s' = manifest s \<and> watcher s' = watcher s
     \<and> (gitBranch s \<noteq> None \<longrightarrow> gitBranch s' \<noteq> None)
     \<and> (watcher s = None \<longrightarrow> s' = s)
     \<and> (error_kind s' = error_kind s \<or> error_kind s' = None
          \<or> error_kind s' = Some ErrFileUpsert)"

definition stage_kept :: "ManagedIndexer \<Rightarrow> ManagedIndexer \<Rightarrow> bool" where
  "stage_kept ix ix' \<longleftrightarrow>
     isActive ix' = isActive ix \<and> indexer_config ix' = indexer_config ix
     \<and> list_all2 state_kept (workspaceFolderState ix) (workspaceFolderState ix')"


section \<open>Example inputs\<close>

text \<open>
  A watcher on \<open>main\<close> at commit \<open>c1\<close> that has not resolved its base branch yet, a git
  environment to fill in, an indexer with one initialised folder whose manifest for
  \<open>main\<close> holds \<open>a.ts\<close>, and two workspace folders with the tracked files \<open>a.ts\<close>
  and \<open>b.ts\<close>, of which the first cannot fetch its manifest.
\<close>

definition example_watcher :: GitWatcher where
  "example_watcher =
     \<lparr>ident = 0, config = \<lparr>cwd = ''/repo'', defaultBranchOverride = None\<rparr>,
      currentState = Some \<lparr>branch = ''main'', commit = ''c1'', isDetached = False\<rparr>,
      isProcessing = False, defaultBranch = None\<rparr>"

definition example_env :: "string \<Rightarrow> string \<Rightarrow> js_error + string \<Rightarrow> GitDiff \<Rightarrow> string list \<times> js_error option \<Rightarrow> git_env" where
  "example_env b c base d out =
     \<lparr>isDetachedHead = Inr False, getCurrentBranch = Inr b, getCurrentCommitSha = Inr c,
      getBaseBranch = base, getGitDiff = (\<lambda>_ _. Inr d), execGetLines = (\<lambda>_. out)\<rparr>"

definition example_config :: ManagedIndexerConfig where
  "example_config = \<lparr>kilocodeToken = Some ''test-token'', kilocodeOrganizationId = Some ''test-org-id''\<rparr>"

definition main_manifest :: ServerManifest where
  "main_manifest = \<lparr>files = [\<lparr>filePath = ''a.ts'', fileHash = ''h1''\<rparr>]\<rparr>"

definition example_state :: ManagedIndexerWorkspaceFolderState where
  "example_state =
     \<lparr>workspaceFolder = ''/test/workspace'', gitBranch = Some ''main'',
      projectId = Some ''test-project-id'', manifest = Some main_manifest, isIndexing = False,
      watcher = Some 0, repositoryUrl = Some ''https://github.com/test/repo'', error = None,
      manifestFetchPromise = None\<rparr>"

definition example_indexer :: ManagedIndexer where
  "example_indexer =
     \<lparr>isActive = True, indexer_config = Some example_config,
      workspaceFolderState = [example_state], fetches = [], suspended = [],
      fileUpsertLimit = [], api_calls = [], next_promise = 0\<rparr>"

definition example_path :: node_path where
  "example_path =
     \<lparr>isAbsolute = (\<lambda>p. p \<noteq> [] \<and> hd p = CHR ''/''),
      path_join = (\<lambda>a b. a @ ''/'' @ b),
      relative = (\<lambda>a b. drop (Suc (length a)) b)\<rparr>"

definition example_extensions :: "string list" where
  "example_extensions = [''.ts'', ''.js'']"

definition example_startup ::
  "js_error + ServerManifest \<Rightarrow> git_env \<Rightarrow> ((js_error + unit) \<times> (js_error + unit)) list
   \<Rightarrow> startup_env" where
  "example_startup manifest_answer git uploads =
     \<lparr>su_isGitRepository = True,
      su_getGitRepositoryInfo = Inr (Some ''https://github.com/test/repo''),
      su_getCurrentBranch = Inr ''main'',
      su_getKilocodeConfig = Inr (Some ''test-project-id''),
      su_getServerManifest = (\<lambda>org pid br tk. manifest_answer),
      su_newGitWatcher = None, su_registerHandler = None,
      su_git = git, su_uploads = uploads\<rparr>"

definition two_files_env :: git_env where
  "two_files_env =
     example_env ''main'' ''c1'' (Inr ''main'') \<lparr>added = [], modified = [], deleted = []\<rparr>
       ([''100644 h1 0'' @ [CHR 0x09] @ ''a.ts'', ''100644 h2 0'' @ [CHR 0x09] @ ''b.ts''], None)"


section \<open>Properties of the parser\<close>

text \<open>
  A well-formed record is parsed into its hash and its path with every run of white
  space turned into one space; a path that is a list of tokens joined by single spaces
  is parsed into itself.
\<close>

lemma is_space_blank [simp]: "is_space (CHR '' '')"
  by (simp add: is_space_def)

lemma split_ws_nonempty [simp]: "split_ws s \<noteq> []"
  by (induction s rule: split_ws.induct) (auto split: list.splits)

lemma split_token:
  "token tok \<Longrightarrow> is_space d \<Longrightarrow>
   split_ws (tok @ d # rest) = tok # split_ws (dropWhile is_space rest)"
  unfolding token_def
proof (induction tok)
  case Nil then show ?case by simp
next
  case (Cons a tok)
  show ?case
  proof (cases tok)
    case Nil
    with Cons.prems show ?thesis by simp
  next
    case (Cons b tok')
    with Cons.IH Cons.prems show ?thesis by simp
  qed
qed

lemma split_single: "token tok \<Longrightarrow> split_ws tok = [tok]"
  unfolding token_def
proof (induction tok)
  case Nil then show ?case by simp
next
  case (Cons a tok)
  show ?case
  proof (cases tok)
    case Nil
    with Cons.prems show ?thesis by simp
  next
    case (Cons b tok')
    with Cons.IH Cons.prems show ?thesis by simp
  qed
qed

lemma rtrim_append:
  "\<exists>c\<in>set p. \<not> is_space c \<Longrightarrow>
   rev (dropWhile is_space (rev (x @ p))) = x @ rev (dropWhile is_space (rev p))"
  by (auto simp: dropWhile_append1)

lemma ltrim_token: "token t \<Longrightarrow> dropWhile is_space (t @ rest) = t @ rest"
  by (cases t) (auto simp: token_def)

lemma trim_record:
  assumes "token m" and p: "\<exists>c\<in>set p. \<not> is_space c"
  shows "trim (m @ x @ p) = m @ x @ rev (dropWhile is_space (rev p))"
proof -
  have "rev (dropWhile is_space (rev (m @ x @ p))) = (m @ x) @ rev (dropWhile is_space (rev p))"
    using rtrim_append [OF p, of "m @ x"] by simp
  then show ?thesis
    using ltrim_token [OF assms(1)] by (simp add: trim_def)
qed

lemma split_record:
  assumes "token m" "token h" "token st" "is_space sep"
  shows "split_ws (m @ '' '' @ h @ '' '' @ st @ [sep] @ q) = m # h # st # split_ws (dropWhile is_space q)"
proof -
  have 1: "split_ws (m @ CHR '' '' # (h @ '' '' @ st @ [sep] @ q))
         = m # split_ws (dropWhile is_space (h @ '' '' @ st @ [sep] @ q))"
    using assms by (intro split_token) simp_all
  have 2: "dropWhile is_space (h @ '' '' @ st @ [sep] @ q) = h @ CHR '' '' # (st @ [sep] @ q)"
    using ltrim_token [OF assms(2)] by simp
  have 3: "split_ws (h @ CHR '' '' # (st @ [sep] @ q)) = h # split_ws (dropWhile is_space (st @ [sep] @ q))"
    using assms by (intro split_token) simp_all
  have 4: "dropWhile is_space (st @ [sep] @ q) = st @ sep # q"
    using ltrim_token [OF assms(3)] by simp
  have 5: "split_ws (st @ sep # q) = st # split_ws (dropWhile is_space q)"
    using assms by (intro split_token) simp_all
  show ?thesis using 1 2 3 4 5 by simp
qed

lemma parse_ls_record:
  assumes "token m" "token h" "token st" "is_space sep" and p: "\<exists>c\<in>set p. \<not> is_space c"
  shows "parse_ls_line (ls_record sep (m, h, st, p)) = Some (join '' '' (split_ws (trim p)), h)"
proof -
  let ?q = "rev (dropWhile is_space (rev p))"
  have t: "trim (ls_record sep (m, h, st, p)) = m @ '' '' @ h @ '' '' @ st @ [sep] @ ?q"
    using trim_record [OF assms(1) p, of "'' '' @ h @ '' '' @ st @ [sep]"]
    by (simp add: ls_record_def)
  have ne: "m @ '' '' @ h @ '' '' @ st @ [sep] @ ?q \<noteq> []" by simp
  have s: "split_ws (m @ '' '' @ h @ '' '' @ st @ [sep] @ ?q) = m # h # st # split_ws (trim p)"
    using split_record [OF assms(1-4), of ?q] by (simp add: trim_def)
  show ?thesis
    unfolding parse_ls_line_def t Let_def s using ne
    by simp
qed

lemma emit_lines_records:
  assumes "is_space sep" "\<forall>r\<in>set rs. wf_record r"
  shows "emit_lines mk (map (ls_record sep) rs)
       = map (\<lambda>(m, h, st, p). Emit (mk (normalise_path p) h)) rs"
  using assms(2)
proof (induction rs)
  case Nil then show ?case by simp
next
  case (Cons r rs)
  obtain m h st p where r: "r = (m, h, st, p)" by (cases r) auto
  from Cons.prems r have "token m" "token h" "token st" "\<exists>c\<in>set p. \<not> is_space c"
    by (auto simp: wf_record_def)
  then have "parse_ls_line (ls_record sep r) = Some (normalise_path p, h)"
    unfolding r normalise_path_def using assms(1) by (intro parse_ls_record)
  with Cons r show ?case by simp
qed

lemma split_join_tokens:
  "ws \<noteq> [] \<Longrightarrow> \<forall>w\<in>set ws. token w \<Longrightarrow> split_ws (join '' '' ws) = ws"
proof (induction ws)
  case Nil then show ?case by simp
next
  case (Cons x ws)
  show ?case
  proof (cases ws)
    case Nil
    with Cons.prems show ?thesis by (simp add: split_single)
  next
    case (Cons y ys)
    have a: "split_ws (x @ CHR '' '' # join '' '' (y # ys))
           = x # split_ws (dropWhile is_space (join '' '' (y # ys)))"
      using Cons.prems by (intro split_token) simp_all
    have "token y" using Cons.prems Cons by simp
    then have b: "dropWhile is_space (join '' '' (y # ys)) = join '' '' (y # ys)"
      by (cases ys) (auto simp: ltrim_token token_def)
    from Cons.IH Cons.prems Cons a b show ?thesis by simp
  qed
qed

lemma trim_join_tokens:
  assumes "ws \<noteq> []" "\<forall>w\<in>set ws. token w"
  shows "trim (join '' '' ws) = join '' '' ws"
proof -
  have h: "dropWhile is_space (join '' '' ws) = join '' '' ws"
  proof (cases ws)
    case Nil with assms show ?thesis by simp
  next
    case (Cons y ys)
    with assms have "token y" by simp
    then show ?thesis unfolding Cons by (cases ys) (auto simp: ltrim_token token_def)
  qed
  have l: "join '' '' ws \<noteq> [] \<and> \<not> is_space (last (join '' '' ws))"
    using assms
  proof (induction ws)
    case Nil then show ?case by simp
  next
    case (Cons x ws)
    then show ?case by (cases ws) (auto simp: token_def)
  qed
  then have "dropWhile is_space (rev (join '' '' ws)) = rev (join '' '' ws)"
    by (cases "rev (join '' '' ws)") (auto simp: last_rev hd_rev dest: arg_cong[where f = hd])
  with h show ?thesis by (simp add: trim_def)
qed

lemma normalise_single_spaced:
  "ws \<noteq> [] \<Longrightarrow> \<forall>w\<in>set ws. token w \<Longrightarrow> normalise_path (join '' '' ws) = join '' '' ws"
  by (simp add: normalise_path_def trim_join_tokens split_join_tokens)

section \<open>Properties of the scans\<close>

lemma emitted_append [simp]: "emitted (xs @ ys) = emitted xs @ emitted ys"
  by (induction xs rule: emitted.induct) auto

lemma commands_append [simp]: "commands (xs @ ys) = commands xs @ commands ys"
  by (induction xs rule: commands.induct) auto

lemma emitted_map_Emit [simp]: "emitted (map (\<lambda>x. Emit (f x)) xs) = map f xs"
  by (induction xs) auto

lemma commands_map_Emit [simp]: "commands (map (\<lambda>x. Emit (f x)) xs) = []"
  by (induction xs) auto

lemma commands_emit_lines [simp]: "commands (emit_lines mk ls) = []"
  by (induction ls) (auto split: option.splits)

lemma emit_lines_no_branch_changed:
  "\<forall>p h. \<not> is_BranchChanged (mk p h) \<Longrightarrow> \<forall>e\<in>set (emitted (emit_lines mk ls)). \<not> is_BranchChanged e"
  by (induction ls) (auto split: option.splits)

lemma ident_getDefaultBranch: "ident (fst (getDefaultBranch w env)) = ident w"
  by (auto simp: getDefaultBranch_def split: sum.splits)

lemma scan_no_branch_changed:
  "\<forall>e\<in>set (emitted (fst (snd (scan w env)))). \<not> is_BranchChanged e"
  using emit_lines_no_branch_changed [where mk = "\<lambda>p h. FileChanged p h x y z" for x y z]
  by (auto simp: scan_def scanAllFiles_def scanDiffFiles_def Let_def
           split: sum.splits bool.splits prod.splits option.splits if_splits)

lemma lower_main [simp]: "toLowerCase ''main'' = ''main''" by code_simp

lemma lower_feature [simp]: "toLowerCase ''feature'' = ''feature''" by code_simp

lemma scan_full_records:
  assumes "isDetachedHead env = Inr False" "getCurrentBranch env = Inr cur"
    "getDefaultBranch w env = (w1, Inr dflt)" "toLowerCase cur = toLowerCase dflt"
    "execGetLines env ''git ls-files -s'' = (map (ls_record sep) rs, None)"
    "is_space sep" "\<forall>r\<in>set rs. wf_record r"
  shows "\<exists>tr. scan w env = (w1, tr, Inr ()) \<and>
     emitted tr = ScanStart cur True (ident w)
        # map (\<lambda>(m, h, st, p). FileChanged (normalise_path p) h cur True (ident w)) rs
        @ [ScanEnd cur True (ident w)]"
proof -
  have i: "ident w1 = ident w" using ident_getDefaultBranch [of w env] assms(3) by simp
  have e: "emit_lines (\<lambda>p h. FileChanged p h cur True (ident w)) (map (ls_record sep) rs)
     = map (\<lambda>(m, h, st, p). Emit (FileChanged (normalise_path p) h cur True (ident w))) rs"
    using assms(6,7) by (rule emit_lines_records)
  have m: "emitted (map (\<lambda>(m, h, st, p). Emit (FileChanged (normalise_path p) h cur True (ident w))) rs)
     = map (\<lambda>(m, h, st, p). FileChanged (normalise_path p) h cur True (ident w)) rs"
    by (induction rs) auto
  show ?thesis
    using assms(1-5) i e m
    by (simp add: scan_def scanAllFiles_def)
qed

lemma currentState_getDefaultBranch: "currentState (fst (getDefaultBranch w env)) = currentState w"
  by (auto simp: getDefaultBranch_def split: sum.splits)

lemma currentState_scan: "currentState (fst (scan w env)) = currentState w"
  using currentState_getDefaultBranch [of w env]
  by (auto simp: scan_def split_beta split: sum.splits bool.splits prod.splits)

lemma handleGitChange_error_keeps:
  assumes "handleGitChange w env = (w', tr, Some e)"
  shows "currentState w' = currentState w"
proof -
  have s: "currentState w2 = currentState w1" if "scan w1 env = (w2, t, r)" for w1 w2 t r
    using currentState_scan [of w1 env] that by simp
  have d: "currentState w1 = currentState w" if "getDefaultBranch w env = (w1, r)" for w1 r
    using currentState_getDefaultBranch [of w env] that by simp
  show ?thesis
    using assms
    by (auto simp: handleGitChange_def Let_def
             split: if_splits sum.splits bool.splits option.splits prod.splits
             dest!: s d)
qed

lemma scan_diff_trace:
  assumes "isDetachedHead env = Inr False" and "getCurrentBranch env = Inr cur"
    and "getDefaultBranch w env = (w1, Inr dflt)"
    and "toLowerCase cur \<noteq> toLowerCase dflt"
    and "getGitDiff env cur dflt = Inr d"
    and "added d @ modified d \<noteq> [] \<longrightarrow> execGetLines env (diff_cmd d) = (lines, None)"
  shows "scan w env =
     (w1,
      [Emit (ScanStart cur False (ident w))]
      @ map (\<lambda>f. Emit (FileDeleted f cur False (ident w))) (deleted d)
      @ (if added d @ modified d = [] then []
         else Exec (diff_cmd d) # emit_lines (\<lambda>p h. FileChanged p h cur False (ident w)) lines)
      @ [Emit (ScanEnd cur False (ident w))],
      Inr ())
    \<and> commands (fst (snd (scan w env))) = (if added d @ modified d = [] then [] else [diff_cmd d])"
proof -
  have i: "ident w1 = ident w" using ident_getDefaultBranch [of w env] assms(3) by simp
  show ?thesis
  proof (cases "added d @ modified d = []")
    case True
    with assms(1-5) i show ?thesis
      by (simp add: scan_def scanDiffFiles_def)
  next
    case False
    with assms(6) have "execGetLines env (diff_cmd d) = (lines, None)" by simp
    with False assms(1-5) i show ?thesis
      by (simp add: scan_def scanDiffFiles_def diff_cmd_def Let_def)
  qed
qed

lemma example_watcher_started:
  "start (new_GitWatcher 0 \<lparr>cwd = ''/repo'', defaultBranchOverride = None\<rparr>)
     (example_env ''main'' ''c1'' (Inr ''main'') \<lparr>added = [], modified = [], deleted = []\<rparr> ([], None))
   = example_watcher"
  by (simp add: start_def new_GitWatcher_def example_env_def example_watcher_def)

section \<open>Properties of the indexer\<close>

text \<open>
  Frame lemmas for the steps of the indexer, the proof that the single-flight invariant
  holds along every calm run, what settling a promise does to the suspended calls, and
  what \<open>start\<close> builds.
\<close>

lemma find_from_Some:
  "find_from w k ss = Some i \<Longrightarrow> k \<le> i \<and> i < k + length ss \<and> watcher (ss ! (i - k)) = Some w"
proof (induction ss arbitrary: k)
  case Nil then show ?case by simp
next
  case (Cons s ss)
  show ?case
  proof (cases "watcher s = Some w")
    case True with Cons.prems show ?thesis by simp
  next
    case False
    with Cons.prems have "find_from w (Suc k) ss = Some i" by simp
    from Cons.IH [OF this] show ?thesis by (auto simp: Suc_diff_le)
  qed
qed

lemma find_state_Some:
  "find_state ix w = Some i \<Longrightarrow>
   i < length (workspaceFolderState ix) \<and> watcher (workspaceFolderState ix ! i) = Some w"
  using find_from_Some [of w 0 "workspaceFolderState ix" i] by (simp add: find_state_def)

lemma states_reconcile [simp]: "workspaceFolderState (reconcile ix i e m) = workspaceFolderState ix"
  by (simp add: reconcile_def)





lemma fetches_update_state [simp]: "fetches (update_state ix i upd) = fetches ix"
  by (simp add: update_state_def)





lemma manifest_request_Some:
  assumes "manifest_request exts ix e = Some (i, br)"
  shows "fetches (onEvent exts ix e) = fetches (fst (getManifest ix i br))"
    and "api_calls (onEvent exts ix e) = api_calls (fst (getManifest ix i br))"
    and "workspaceFolderState (onEvent exts ix e) = workspaceFolderState (fst (getManifest ix i br))"
  using assms
  by (auto simp: manifest_request_def onEvent_def Let_def reconcile_def
           split: if_splits option.splits GitWatcherEvent.splits prod.splits manifest_result.splits)










lemma fold_resume_fulfilled:
  "fileUpsertLimit (fold (resume (Fulfilled m)) ws ix)
   = fileUpsertLimit ix @ concat (map (scheduled_by m) ws)"
proof (induction ws arbitrary: ix)
  case Nil then show ?case by simp
next
  case (Cons w ws)
  have "fileUpsertLimit (resume (Fulfilled m) w ix) = fileUpsertLimit ix @ scheduled_by m w"
    by (cases w) (simp_all add: reconcile_def)
  with Cons.IH [of "resume (Fulfilled m) w ix"] show ?case by simp
qed

lemma fold_resume_rejected:
  "fold (resume (Rejected e)) ws ix = ix"
proof (induction ws)
  case Nil then show ?case by simp
next
  case (Cons w ws)
  have "resume (Rejected e) w ix = ix" by (cases w) simp_all
  with Cons show ?case by simp
qed

lemma settle_fulfilled_uploads:
  "fileUpsertLimit (settle ix p (Fulfilled m))
   = fileUpsertLimit ix
     @ concat (map (scheduled_by m) (map snd (filter (\<lambda>(q, w). q = p) (suspended ix))))"
  by (simp add: settle_def fold_resume_fulfilled)

lemma settle_rejected_skips:
  "fileUpsertLimit (settle ix p (Rejected e)) = fileUpsertLimit ix
   \<and> api_calls (settle ix p (Rejected e)) = api_calls ix"
  by (simp add: settle_def fold_resume_rejected)

lemma settle_wakes_once:
  "\<forall>(q, w)\<in>set (suspended (settle ix p r)). q \<noteq> p"
proof -
  have "suspended (fold (resume r) ws ix') = suspended ix'" for ws ix'
  proof (induction ws arbitrary: ix')
    case Nil then show ?case by simp
  next
    case (Cons w ws)
    have "suspended (resume r w ix') = suspended ix'"
      by (cases r; cases w) (simp_all add: reconcile_def)
    with Cons.IH [of "resume r w ix'"] show ?case by simp
  qed
  then show ?thesis by (auto simp: settle_def)
qed


lemma lower_ts [simp]: "toLowerCase ''.ts'' = ''.ts''" by code_simp

lemma extname_a [simp]: "extname ''a.ts'' = ''.ts''" by (simp add: extname_def)

lemma extname_b [simp]: "extname ''b.ts'' = ''.ts''" by (simp add: extname_def)

lemmas indexer_defs = run_def onEvent_def find_state_def getManifest_def update_state_def
  config_arrives_def manifest_arrives_def fetch_failed_def settle_def reconcile_def
  already_indexed_def config_token_def config_org_def clear_error_def error_message_def

lemmas example_defs = example_indexer_def example_state_def example_config_def
  main_manifest_def example_extensions_def

lemma getManifest_frame:
  "fileUpsertLimit (fst (getManifest ix i br)) = fileUpsertLimit ix"
  "isActive (fst (getManifest ix i br)) = isActive ix"
  by (simp_all add: getManifest_def update_state_def Let_def)

lemma getManifest_Cached:
  "getManifest ix i br = (ix1, Cached m) \<Longrightarrow> ix1 = ix"
  by (auto simp: getManifest_def Let_def split: if_splits)

lemma run_upload_one_call:
  assumes "fileUpsertLimit ix = (i, event) # rest"
    and "truthy (config_token ix)" "truthy (config_org ix)"
    and "truthy (projectId (workspaceFolderState ix ! i))"
  shows "api_calls (run_upload P ix (Inr ()) up)
     = api_calls ix @ [UpsertFile (ev_fileHash event)
          (relative P (workspaceFolder (workspaceFolderState ix ! i))
             (if isAbsolute P (ev_filePath event) then ev_filePath event
              else path_join P (workspaceFolder (workspaceFolderState ix ! i)) (ev_filePath event)))
          (ev_branch event) (ev_isBaseBranch event) (the (config_org ix))
          (the (projectId (workspaceFolderState ix ! i))) (the (config_token ix))]
     \<and> fileUpsertLimit (run_upload P ix (Inr ()) up) = rest"
  using assms
  by (cases up) (simp_all add: run_upload_def Let_def config_token_def config_org_def
        upsert_failed_def update_state_def)


lemma state_kept_refl [simp]: "state_kept s s"
  by (simp add: state_kept_def)


lemma stage_kept_refl [simp]: "stage_kept ix ix"
  by (simp add: stage_kept_def list_all2_refl)








lemma getManifest_config:
  "indexer_config (fst (getManifest ix i br)) = indexer_config ix"
  by (simp add: getManifest_def update_state_def Let_def)























lemma two_files_scan:
  "scan (new_GitWatcher k \<lparr>cwd = r, defaultBranchOverride = None\<rparr>) two_files_env
   = ((new_GitWatcher k \<lparr>cwd = r, defaultBranchOverride = None\<rparr>)\<lparr>defaultBranch := Some ''main''\<rparr>,
      [Emit (ScanStart ''main'' True k), Exec ''git ls-files -s'',
       Emit (FileChanged ''a.ts'' ''h1'' ''main'' True k),
       Emit (FileChanged ''b.ts'' ''h2'' ''main'' True k),
       Emit (ScanEnd ''main'' True k)],
      Inr ())"
  by (simp add: scan_def two_files_env_def example_env_def new_GitWatcher_def getDefaultBranch_def
      scanAllFiles_def parse_ls_line_def trim_def is_space_def)


text \<open>The example indexer is what \<open>start\<close> makes of one folder with no tracked file.\<close>

lemma example_indexer_started:
  "fst (ManagedIndexer_start example_extensions example_path example_config (Inr True)
         (\<lambda>r. example_startup (Inr main_manifest)
                (example_env ''main'' ''c1'' (Inr ''main'') \<lparr>added = [], modified = [], deleted = []\<rparr>
                   ([], None)) [])
         [''/test/workspace''])
   = example_indexer"
  by code_simp

text \<open>
  A first scan that throws after \<open>ScanStart\<close> and one file: the folder is left
  indexing with the file queued, its watcher is not started, and \<open>start\<close> rejects.
\<close>

lemma example_first_scan_fails:
  "ManagedIndexer_start example_extensions example_path example_config (Inr True)
     (\<lambda>r. example_startup (Inr main_manifest)
            (example_env ''main'' ''c1'' (Inr ''main'') \<lparr>added = [], modified = [], deleted = []\<rparr>
               ([''100644 h2 0'' @ [CHR 0x09] @ ''b.ts''], Some (JsError ''Git command failed''))) [])
     [''/test/workspace'']
   = (example_indexer\<lparr>workspaceFolderState := [example_state\<lparr>isIndexing := True\<rparr>],
        fileUpsertLimit := [(0, FileChanged ''b.ts'' ''h2'' ''main'' True 0)]\<rparr>,
      [], Inl (JsError ''Git command failed''))"
  by code_simp

lemma file_changed_reconciled:
  assumes "isActive ix" and "find_state ix w = Some i"
    and "truthy (projectId (workspaceFolderState ix ! i))"
    and "truthy (gitBranch (workspaceFolderState ix ! i))"
    and "toLowerCase (extname fp) \<in> set exts"
    and "event = FileChanged fp fh br isb w"
  shows "(\<forall>ix1 m. getManifest ix i br = (ix1, Cached m) \<longrightarrow>
            fileUpsertLimit (onEvent exts ix event)
              = fileUpsertLimit ix @ (if already_indexed m fp fh then [] else [(i, event)])
            \<and> api_calls (onEvent exts ix event) = api_calls ix)
       \<and> (\<forall>ix1 p. getManifest ix i br = (ix1, Pending p) \<longrightarrow>
            onEvent exts ix event
              = ix1\<lparr>suspended := suspended ix1 @ [(p, FileChangedWaiter i event)]\<rparr>
            \<and> fileUpsertLimit (onEvent exts ix event) = fileUpsertLimit ix)
       \<and> (\<forall>ix2 m. fileUpsertLimit (resume (Fulfilled m) (FileChangedWaiter i event) ix2)
              = fileUpsertLimit ix2 @ (if already_indexed m fp fh then [] else [(i, event)])
            \<and> api_calls (resume (Fulfilled m) (FileChangedWaiter i event) ix2) = api_calls ix2)"
proof (intro conjI allI impI)
  fix ix1 m assume g: "getManifest ix i br = (ix1, Cached m)"
  then have e: "ix1 = ix" by (rule getManifest_Cached)
  show "fileUpsertLimit (onEvent exts ix event)
              = fileUpsertLimit ix @ (if already_indexed m fp fh then [] else [(i, event)])"
    using assms g e by (simp add: onEvent_def reconcile_def)
  show "api_calls (onEvent exts ix event) = api_calls ix"
    using assms g e by (simp add: onEvent_def reconcile_def)
next
  fix ix1 p assume g: "getManifest ix i br = (ix1, Pending p)"
  show "onEvent exts ix event = ix1\<lparr>suspended := suspended ix1 @ [(p, FileChangedWaiter i event)]\<rparr>"
    using assms g by (simp add: onEvent_def)
  then show "fileUpsertLimit (onEvent exts ix event) = fileUpsertLimit ix"
    using getManifest_frame(1) [of ix i br] g by simp
next
  fix ix2 m
  show "fileUpsertLimit (resume (Fulfilled m) (FileChangedWaiter i event) ix2)
              = fileUpsertLimit ix2 @ (if already_indexed m fp fh then [] else [(i, event)])"
    using assms(6) by (simp add: reconcile_def)
  show "api_calls (resume (Fulfilled m) (FileChangedWaiter i event) ix2) = api_calls ix2"
    by (simp add: reconcile_def)
qed



lemma interleaved_run_not_calm:
  "\<not> calm_run example_extensions example_path example_indexer
       [Event (BranchChanged ''main'' ''feature-a'' ''feature-a'' False 0),
        Event (BranchChanged ''feature-a'' ''feature-b'' ''feature-b'' False 0),
        Event (BranchChanged ''feature-b'' ''feature-a'' ''feature-a'' False 0)]"
  by code_simp

section \<open>The claims\<close>




text \<open>
  Claim C2 (full-scan completeness and order). The order is right and well-formed
  records are all emitted (\<open>scan_full_records\<close> above), but the scan does not emit one
  \<open>FileChanged\<close> for every tracked file: a tracked file whose name is a single space
  gives the line \<open>mode hash 0 TAB SPACE\<close>, which \<open>trim\<close> cuts down to three fields,
  and the line is skipped. On the base branch with that one tracked file the scan emits
  \<open>ScanStart\<close> and \<open>ScanEnd\<close> only.
\<close>

theorem full_scan_drops_blank_path:
  "scan example_watcher
     (example_env ''main'' ''c1'' (Inr ''main'') \<lparr>added = [], modified = [], deleted = []\<rparr>
        ([''100644 e69de29bb2d1d6434b8b29ae775ad8c2e48c5391 0'' @ [CHR 0x09] @ '' ''], None))
   = (example_watcher\<lparr>defaultBranch := Some ''main''\<rparr>,
      [Emit (ScanStart ''main'' True 0), Exec ''git ls-files -s'', Emit (ScanEnd ''main'' True 0)],
      Inr ())"
  by (simp add: scan_def example_env_def example_watcher_def getDefaultBranch_def scanAllFiles_def
      parse_ls_line_def trim_def is_space_def)

text \<open>
  Claim C3 (content-addressed upload idempotence). Reconciled against a manifest, a file
  event schedules nothing when the manifest has its exact (filePath, fileHash) pair and
  exactly one task otherwise (\<open>file_changed_reconciled\<close> above), and the task makes one
  \<open>upsertFile\<close> call (\<open>run_upload_one_call\<close>). But the manifest that decides is not
  always the one of the event's branch: \<open>getManifest\<close> answers with the manifest it
  holds whenever the recorded branch is the branch asked for, and after a failed refresh
  the manifest held is the one of the branch before. Below, the folder starts on
  \<open>main\<close> with \<open>a.ts\<close> at \<open>h1\<close> in its manifest, moves to \<open>feature\<close>, whose
  manifest holds \<open>b.ts\<close> at \<open>h2\<close>, and back to \<open>main\<close>, where the refresh is
  rejected. Then \<open>a.ts\<close> at \<open>h1\<close> on \<open>main\<close> is uploaded although the manifest of
  \<open>main\<close> has that pair, and \<open>b.ts\<close> at \<open>h2\<close> on \<open>main\<close> is not uploaded
  although the manifest of \<open>main\<close> does not have it.
\<close>

theorem upload_decided_by_stale_manifest:
  "api_calls (run example_extensions example_path example_indexer
       [Event (BranchChanged ''main'' ''feature'' ''feature'' False 0),
        ConfigArrives 0 (Inr (Some ''test-project-id'')),
        ManifestArrives 0 (Inr \<lparr>files = [\<lparr>filePath = ''b.ts'', fileHash = ''h2''\<rparr>]\<rparr>),
        Event (BranchChanged ''feature'' ''main'' ''main'' True 0),
        ConfigArrives 1 (Inr (Some ''test-project-id'')),
        ManifestArrives 1 (Inl (JsError ''API error'')),
        Event (FileChanged ''a.ts'' ''h1'' ''main'' True 0),
        Event (FileChanged ''b.ts'' ''h2'' ''main'' True 0),
        RunUpload (Inr ()) (Inr ()),
        RunUpload (Inr ()) (Inr ())])
   = [GetKilocodeConfig ''/test/workspace'' (Some ''https://github.com/test/repo''),
      GetServerManifest ''test-org-id'' ''test-project-id'' ''feature'' ''test-token'',
      GetKilocodeConfig ''/test/workspace'' (Some ''https://github.com/test/repo''),
      GetServerManifest ''test-org-id'' ''test-project-id'' ''main'' ''test-token'',
      UpsertFile ''h1'' ''a.ts'' ''main'' True ''test-org-id'' ''test-project-id'' ''test-token'']
   \<and> already_indexed main_manifest ''a.ts'' ''h1''
   \<and> \<not> already_indexed main_manifest ''b.ts'' ''h2''"
  by code_simp

text \<open>
  Claim C4 (differential scan). The order of the events, the single batched command with
  every path in double quotes, and \<open>ScanEnd\<close> with nothing to hash are as claimed
  (\<open>scan_diff_trace\<close> above), but the scan does not emit one \<open>FileChanged\<close> per
  result of the command. An added file whose name is a single space comes back as the
  line \<open>mode hash 0 TAB SPACE\<close>, which \<open>trim\<close> cuts down to three fields, and the
  line is skipped: below the command has two results and the scan emits one
  \<open>FileChanged\<close>.
\<close>

theorem differential_scan_drops_blank_path:
  "scan example_watcher
     (example_env ''feature'' ''c1'' (Inr ''main'')
        \<lparr>added = ['' '', ''new-file.ts''], modified = [], deleted = []\<rparr>
        ([''100644 e69de29bb2d1d6434b8b29ae775ad8c2e48c5391 0'' @ [CHR 0x09] @ '' '',
          ''100644 abc123 0'' @ [CHR 0x09] @ ''new-file.ts''], None))
   = (example_watcher\<lparr>defaultBranch := Some ''main''\<rparr>,
      [Emit (ScanStart ''feature'' False 0),
       Exec (''git ls-files -s '' @ [CHR 0x22] @ '' '' @ [CHR 0x22] @ '' ''
             @ [CHR 0x22] @ ''new-file.ts'' @ [CHR 0x22]),
       Emit (FileChanged ''new-file.ts'' ''abc123'' ''feature'' False 0),
       Emit (ScanEnd ''feature'' False 0)],
      Inr ())"
  by (simp add: scan_def example_env_def example_watcher_def getDefaultBranch_def scanDiffFiles_def
      quote_def parse_ls_line_def trim_def is_space_def)

text \<open>
  Claim C5 (no stale manifest). A file whose manifest fetch is rejected is skipped
  (\<open>settle_rejected_skips\<close> above), but the indexer does reconcile file events against a
  manifest fetched for another branch. \<open>getManifest\<close> records the new branch before it
  fetches and keeps the old manifest; when the fetch for \<open>feature\<close> fails, the next
  request for \<open>feature\<close> finds a manifest "cached for this branch" and returns the one
  fetched for \<open>main\<close>. Below, the only manifest call for \<open>feature\<close> was rejected, yet
  \<open>a.ts\<close> is taken as already indexed (it is in the manifest of \<open>main\<close>) and \<open>b.ts\<close>
  is uploaded.
\<close>

theorem stale_manifest_after_failed_refresh:
  "fileUpsertLimit (run example_extensions example_path example_indexer
       [Event (BranchChanged ''main'' ''feature'' ''feature'' False 0),
        ConfigArrives 0 (Inr (Some ''test-project-id'')),
        ManifestArrives 0 (Inl (JsError ''API error'')),
        Event (FileChanged ''a.ts'' ''h1'' ''feature'' False 0),
        Event (FileChanged ''b.ts'' ''h2'' ''feature'' False 0)])
     = [(0, FileChanged ''b.ts'' ''h2'' ''feature'' False 0)]
   \<and> snd (getManifest (run example_extensions example_path example_indexer
       [Event (BranchChanged ''main'' ''feature'' ''feature'' False 0),
        ConfigArrives 0 (Inr (Some ''test-project-id'')),
        ManifestArrives 0 (Inl (JsError ''API error''))]) 0 ''feature'')
     = Cached main_manifest
   \<and> api_calls (run example_extensions example_path example_indexer
       [Event (BranchChanged ''main'' ''feature'' ''feature'' False 0),
        ConfigArrives 0 (Inr (Some ''test-project-id'')),
        ManifestArrives 0 (Inl (JsError ''API error'')),
        Event (FileChanged ''a.ts'' ''h1'' ''feature'' False 0),
        Event (FileChanged ''b.ts'' ''h2'' ''feature'' False 0)])
     = [GetKilocodeConfig ''/test/workspace'' (Some ''https://github.com/test/repo''),
        GetServerManifest ''test-org-id'' ''test-project-id'' ''feature'' ''test-token'']"
  by (simp add: indexer_defs example_defs)

text \<open>
  Claim C6 (snapshot freshness), as the code supports it. After a change-handling cycle
  that observed branch \<open>b\<close> at commit \<open>c\<close> and logged no error, the cached snapshot
  is (\<open>b\<close>, \<open>c\<close>), whether or not that differs from the snapshot before. A cycle
  that logged an error leaves the snapshot as it was; and in a cycle that observes a
  changed state, a failure to resolve the base branch (asked for when the branch
  changed) and a failure of the rescan are logged.
\<close>

theorem snapshot_fresh_without_error:
  assumes "\<not> isProcessing w" and "handleGitChange w env = (w', tr, err)"
  shows "(err = None \<and> isDetachedHead env = Inr False \<and> getCurrentBranch env = Inr b
            \<and> getCurrentCommitSha env = Inr c \<longrightarrow> observed w' = Some (b, c))
       \<and> (err \<noteq> None \<longrightarrow> currentState w' = currentState w)
       \<and> (isDetachedHead env = Inr False \<and> getCurrentBranch env = Inr b
            \<and> getCurrentCommitSha env = Inr c \<and> currentState w = Some cur \<longrightarrow>
            (branch cur \<noteq> b \<and> snd (getDefaultBranch w env) = Inl e \<longrightarrow> err = Some e)
            \<and> (branch cur \<noteq> b \<and> getDefaultBranch w env = (w1, Inr dflt)
                 \<and> snd (snd (scan w1 env)) = Inl e \<longrightarrow> err = Some e)
            \<and> (branch cur = b \<and> commit cur \<noteq> c \<and> snd (snd (scan w env)) = Inl e
                 \<longrightarrow> err = Some e))"
proof (intro conjI impI)
  assume "err = None \<and> isDetachedHead env = Inr False \<and> getCurrentBranch env = Inr b
            \<and> getCurrentCommitSha env = Inr c"
  with assms show "observed w' = Some (b, c)"
    by (auto simp: handleGitChange_def observed_def Let_def getDefaultBranch_def
             split: option.splits if_splits sum.splits prod.splits)
next
  assume "err \<noteq> None"
  then obtain e' where "err = Some e'" by auto
  with assms(2) show "currentState w' = currentState w"
    using handleGitChange_error_keeps [of w env w' tr e'] by simp
next
  assume h: "isDetachedHead env = Inr False \<and> getCurrentBranch env = Inr b
            \<and> getCurrentCommitSha env = Inr c \<and> currentState w = Some cur"
    and f: "branch cur \<noteq> b \<and> snd (getDefaultBranch w env) = Inl e"
  obtain w0 where "getDefaultBranch w env = (w0, Inl e)"
    using f by (cases "getDefaultBranch w env") auto
  with assms h f show "err = Some e"
    by (simp add: handleGitChange_def)
next
  assume h: "isDetachedHead env = Inr False \<and> getCurrentBranch env = Inr b
            \<and> getCurrentCommitSha env = Inr c \<and> currentState w = Some cur"
    and f: "branch cur \<noteq> b \<and> getDefaultBranch w env = (w1, Inr dflt)
                 \<and> snd (snd (scan w1 env)) = Inl e"
  obtain w2 t where "scan w1 env = (w2, t, Inl e)"
    using f by (cases "scan w1 env") auto
  with assms h f show "err = Some e"
    by (simp add: handleGitChange_def)
next
  assume h: "isDetachedHead env = Inr False \<and> getCurrentBranch env = Inr b
            \<and> getCurrentCommitSha env = Inr c \<and> currentState w = Some cur"
    and f: "branch cur = b \<and> commit cur \<noteq> c \<and> snd (snd (scan w env)) = Inl e"
  obtain w2 t where "scan w env = (w2, t, Inl e)"
    using f by (cases "scan w env") auto
  with assms h f show "err = Some e"
    by (simp add: handleGitChange_def)
qed

text \<open>A cycle that sees \<open>feature\<close> at \<open>c2\<close> after \<open>main\<close> at \<open>c1\<close>, a cycle that sees
  the state unchanged, and a cycle that sees \<open>feature\<close> but cannot resolve the base
  branch.\<close>

theorem snapshot_fresh_without_error_witness:
  "observed (fst (handleGitChange example_watcher
      (example_env ''feature'' ''c2'' (Inr ''main'') \<lparr>added = [], modified = [], deleted = []\<rparr> ([], None))))
   = Some (''feature'', ''c2'')
   \<and> observed (fst (handleGitChange example_watcher
      (example_env ''main'' ''c1'' (Inr ''main'') \<lparr>added = [], modified = [], deleted = []\<rparr> ([], None))))
   = Some (''main'', ''c1'')
   \<and> snd (snd (handleGitChange example_watcher
      (example_env ''feature'' ''c2'' (Inl (JsError ''not a git repository''))
         \<lparr>added = [], modified = [], deleted = []\<rparr> ([], None))))
   = Some (JsError ''not a git repository'')
   \<and> currentState (fst (handleGitChange example_watcher
      (example_env ''feature'' ''c2'' (Inl (JsError ''not a git repository''))
         \<lparr>added = [], modified = [], deleted = []\<rparr> ([], None))))
   = Some \<lparr>branch = ''main'', commit = ''c1'', isDetached = False\<rparr>"
  using snapshot_fresh_without_error [of example_watcher
      "example_env ''feature'' ''c2'' (Inr ''main'') \<lparr>added = [], modified = [], deleted = []\<rparr> ([], None)"
      "example_watcher\<lparr>currentState := Some \<lparr>branch = ''feature'', commit = ''c2'', isDetached = False\<rparr>,
          defaultBranch := Some ''main''\<rparr>"
      "[Emit (BranchChanged ''main'' ''feature'' ''feature'' False 0), InvokeScan,
        Emit (ScanStart ''feature'' False 0), Emit (ScanEnd ''feature'' False 0)]"
      None "''feature''" "''c2''"]
    snapshot_fresh_without_error [of example_watcher
      "example_env ''main'' ''c1'' (Inr ''main'') \<lparr>added = [], modified = [], deleted = []\<rparr> ([], None)"
      example_watcher "[]" None "''main''" "''c1''"]
    snapshot_fresh_without_error [of example_watcher
      "example_env ''feature'' ''c2'' (Inl (JsError ''not a git repository''))
         \<lparr>added = [], modified = [], deleted = []\<rparr> ([], None)"
      example_watcher "[]" "Some (JsError ''not a git repository'')" "''feature''" "''c2''"
      "\<lparr>branch = ''main'', commit = ''c1'', isDetached = False\<rparr>" "JsError ''not a git repository''"]
  by (simp add: example_env_def example_watcher_def handleGitChange_def getDefaultBranch_def
      scan_def scanDiffFiles_def observed_def)

text \<open>
  After every cycle C6 does not hold: when the rescan throws (here the listing of
  tracked files fails), the error is logged and the snapshot stays (\<open>main\<close>, \<open>c1\<close>)
  although the cycle observed commit \<open>c2\<close>.
\<close>

theorem snapshot_stale_after_failed_rescan_counterexample:
  "handleGitChange (example_watcher\<lparr>defaultBranch := Some ''main''\<rparr>)
      (example_env ''main'' ''c2'' (Inr ''main'') \<lparr>added = [], modified = [], deleted = []\<rparr>
         ([], Some (JsError ''Git command failed'')))
   = (example_watcher\<lparr>defaultBranch := Some ''main''\<rparr>,
      [InvokeScan, Emit (ScanStart ''main'' True 0), Exec ''git ls-files -s''],
      Some (JsError ''Git command failed''))
   \<and> observed (example_watcher\<lparr>defaultBranch := Some ''main''\<rparr>) = Some (''main'', ''c1'')"
  by (simp add: example_env_def example_watcher_def handleGitChange_def getDefaultBranch_def
      scan_def scanAllFiles_def observed_def)

text \<open>
  Claim C7 (branch-change detection and order), as the code supports it. In a cycle that
  observes a state different from the cached snapshot: when the branch changed and the
  base branch resolves, the first thing the cycle does is emit one \<open>BranchChanged\<close>
  with the previous and the new branch, then it calls \<open>scan\<close>, and no other
  \<open>BranchChanged\<close> follows; when only the commit changed it calls \<open>scan\<close> at once
  and emits no \<open>BranchChanged\<close>.
\<close>

theorem branch_change_before_scan:
  assumes "\<not> isProcessing w" and "isDetachedHead env = Inr False"
    and "getCurrentBranch env = Inr b" and "getCurrentCommitSha env = Inr c"
    and "currentState w = Some cur"
  shows "(branch cur \<noteq> b \<longrightarrow> (\<forall>w1 dflt. getDefaultBranch w env = (w1, Inr dflt) \<longrightarrow>
            fst (snd (handleGitChange w env))
              = Emit (BranchChanged (branch cur) b b (toLowerCase b = toLowerCase dflt) (ident w))
                # InvokeScan # fst (snd (scan w1 env))
            \<and> length (filter is_BranchChanged (emitted (fst (snd (handleGitChange w env))))) = 1))
       \<and> (branch cur = b \<and> commit cur \<noteq> c \<longrightarrow>
            fst (snd (handleGitChange w env)) = InvokeScan # fst (snd (scan w env))
            \<and> filter is_BranchChanged (emitted (fst (snd (handleGitChange w env)))) = [])"
proof -
  have nb: "filter is_BranchChanged (emitted (fst (snd (scan v env)))) = []" for v
    using scan_no_branch_changed [of v env] by (simp add: filter_empty_conv)
  have 1: "fst (snd (handleGitChange w env))
              = Emit (BranchChanged (branch cur) b b (toLowerCase b = toLowerCase dflt) (ident w))
                # InvokeScan # fst (snd (scan w1 env))"
    if "branch cur \<noteq> b" "getDefaultBranch w env = (w1, Inr dflt)" for w1 dflt
    using assms that
    by (simp add: handleGitChange_def Let_def split: prod.splits sum.splits)
  have 2: "fst (snd (handleGitChange w env)) = InvokeScan # fst (snd (scan w env))"
    if "branch cur = b" "commit cur \<noteq> c"
    using assms that
    by (simp add: handleGitChange_def Let_def split: prod.splits sum.splits)
  show ?thesis using 1 2 nb by simp
qed

text \<open>A switch from \<open>main\<close> to \<open>feature\<close> at the same commit, and a new commit on
  \<open>main\<close>.\<close>

theorem branch_change_before_scan_witness:
  "fst (snd (handleGitChange example_watcher
      (example_env ''feature'' ''c1'' (Inr ''main'') \<lparr>added = [], modified = [], deleted = []\<rparr> ([], None))))
    = [Emit (BranchChanged ''main'' ''feature'' ''feature'' False 0), InvokeScan,
       Emit (ScanStart ''feature'' False 0), Emit (ScanEnd ''feature'' False 0)]
   \<and> fst (snd (handleGitChange example_watcher
      (example_env ''main'' ''c2'' (Inr ''main'') \<lparr>added = [], modified = [], deleted = []\<rparr> ([], None))))
    = [InvokeScan, Emit (ScanStart ''main'' True 0), Exec ''git ls-files -s'', Emit (ScanEnd ''main'' True 0)]"
  using branch_change_before_scan [of example_watcher
      "example_env ''feature'' ''c1'' (Inr ''main'') \<lparr>added = [], modified = [], deleted = []\<rparr> ([], None)"
      "''feature''" "''c1''" "\<lparr>branch = ''main'', commit = ''c1'', isDetached = False\<rparr>"]
    branch_change_before_scan [of example_watcher
      "example_env ''main'' ''c2'' (Inr ''main'') \<lparr>added = [], modified = [], deleted = []\<rparr> ([], None)"
      "''main''" "''c2''" "\<lparr>branch = ''main'', commit = ''c1'', isDetached = False\<rparr>"]
  by (simp add: example_env_def example_watcher_def getDefaultBranch_def
      scan_def scanDiffFiles_def scanAllFiles_def)

text \<open>
  Whenever a branch change is observed C7 does not hold: the base branch is resolved
  before the event is emitted, and when that fails (the watcher has not cached it and
  \<open>getBaseBranch\<close> rejects) the cycle ends with no event and no scan.
\<close>

theorem branch_change_lost_counterexample:
  "handleGitChange example_watcher
      (example_env ''feature'' ''c1'' (Inl (JsError ''not a git repository''))
         \<lparr>added = [], modified = [], deleted = []\<rparr> ([], None))
   = (example_watcher, [], Some (JsError ''not a git repository''))"
  by (simp add: example_env_def example_watcher_def handleGitChange_def getDefaultBranch_def)

text \<open>
  Claim C8 (white space in paths). Paths whose words are separated by single spaces come
  back unchanged (\<open>normalise_single_spaced\<close> above); other white space does not. The
  parser splits on runs of white space and joins with single spaces, so the tracked file
  \<open>my  file.ts\<close> (two spaces) is emitted as \<open>my file.ts\<close>, in the full scan and in the
  differential scan alike.
\<close>

theorem double_space_path_collapsed:
  "emitted (fst (snd (scan example_watcher
     (example_env ''main'' ''c1'' (Inr ''main'') \<lparr>added = [], modified = [], deleted = []\<rparr>
        ([''100644 abc123 0'' @ [CHR 0x09] @ ''my  file.ts''], None)))))
   = [ScanStart ''main'' True 0, FileChanged ''my file.ts'' ''abc123'' ''main'' True 0,
      ScanEnd ''main'' True 0]
  \<and> fst (snd (scan example_watcher
     (example_env ''feature'' ''c1'' (Inr ''main'') \<lparr>added = [''my  file.ts''], modified = [], deleted = []\<rparr>
        ([''100644 abc123 0'' @ [CHR 0x09] @ ''my  file.ts''], None))))
   = [Emit (ScanStart ''feature'' False 0), Exec (''git ls-files -s '' @ [CHR 0x22] @ ''my  file.ts'' @ [CHR 0x22]),
      Emit (FileChanged ''my file.ts'' ''abc123'' ''feature'' False 0),
      Emit (ScanEnd ''feature'' False 0)]"
  by (simp add: scan_def example_env_def example_watcher_def getDefaultBranch_def scanAllFiles_def
      scanDiffFiles_def quote_def parse_ls_line_def trim_def is_space_def)




text \<open>
  Claim C10 (guard on folders that are not initialised). An event whose watcher resolves
  to a state whose project id or branch is null (or empty) leaves the indexer exactly as
  it was:
  no field changes, no fetch starts, no call is made, nothing is scheduled. And a state
  without a watcher, such as one that failed at the git stage, is never the state an
  event resolves to.
\<close>

theorem uninitialised_root_ignores_events:
  "(\<forall>i. find_state ix (ev_watcher event) = Some i \<and>
         (\<not> truthy (projectId (workspaceFolderState ix ! i))
          \<or> \<not> truthy (gitBranch (workspaceFolderState ix ! i)))
         \<longrightarrow> onEvent exts ix event = ix)
   \<and> (\<forall>j. watcher (workspaceFolderState ix ! j) = None
         \<longrightarrow> find_state ix (ev_watcher event) \<noteq> Some j)"
proof (intro conjI allI impI)
  fix i
  assume "find_state ix (ev_watcher event) = Some i \<and>
         (\<not> truthy (projectId (workspaceFolderState ix ! i))
          \<or> \<not> truthy (gitBranch (workspaceFolderState ix ! i)))"
  then show "onEvent exts ix event = ix"
    by (auto simp: onEvent_def)
next
  fix j
  assume "watcher (workspaceFolderState ix ! j) = None"
  then show "find_state ix (ev_watcher event) \<noteq> Some j"
    using find_state_Some [of ix "ev_watcher event" j] by auto
qed

text \<open>A folder whose project id is missing ignores a file event; a folder without a
  watcher is not found.\<close>

theorem uninitialised_root_ignores_events_witness:
  "onEvent example_extensions
     (example_indexer\<lparr>workspaceFolderState := [example_state\<lparr>projectId := None\<rparr>]\<rparr>)
     (FileChanged ''b.ts'' ''h2'' ''main'' True 0)
   = example_indexer\<lparr>workspaceFolderState := [example_state\<lparr>projectId := None\<rparr>]\<rparr>
   \<and> find_state (example_indexer\<lparr>workspaceFolderState := [example_state\<lparr>watcher := None, gitBranch := None\<rparr>]\<rparr>) 0
     = None"
  using uninitialised_root_ignores_events [of
      "example_indexer\<lparr>workspaceFolderState := [example_state\<lparr>projectId := None\<rparr>]\<rparr>"
      "FileChanged ''b.ts'' ''h2'' ''main'' True 0" example_extensions]
    uninitialised_root_ignores_events [of
      "example_indexer\<lparr>workspaceFolderState := [example_state\<lparr>watcher := None, gitBranch := None\<rparr>]\<rparr>"
      "FileChanged ''b.ts'' ''h2'' ''main'' True 0" example_extensions]
  by (simp add: example_defs find_state_def)

end
